theory Spec2Isabelle
  imports Complex_Main "HOL-Library.Log_Nat"
begin

section \<open>Client storage\<close>

text \<open>
  The browser's \<^verbatim>\<open>localStorage\<close> maps key strings to strings. A stored string is
  represented by the document it denotes: \<^verbatim>\<open>JSON.stringify\<close> is the constructor and
  \<^verbatim>\<open>JSON.parse\<close> is the pattern match. Money and stall quantities are whole numbers
  (\<open>int\<close>).
\<close>

record Draft =
  d_eventId :: string
  d_stallId :: string
  d_tier :: string
  d_price :: int

record LocalBooking =
  lb_id :: string
  lb_event :: string
  lb_dateStart :: "string option"
  lb_dateEnd :: "string option"
  lb_location :: string
  lb_tier :: string
  lb_stallNumber :: string
  lb_amount :: int
  lb_status :: string
  lb_reviewed :: bool
  lb_rating :: int

datatype stored =
    Text string
  | DraftDoc Draft
  | BookingsDoc "LocalBooking list"

type_synonym storage = "string \<rightharpoonup> stored"

definition getItem :: "storage \<Rightarrow> string \<Rightarrow> stored option" where
  "getItem st k = st k"

definition setItem :: "storage \<Rightarrow> string \<Rightarrow> stored \<Rightarrow> storage" where
  "setItem st k v = st(k \<mapsto> v)"

definition removeItem :: "storage \<Rightarrow> string \<Rightarrow> storage" where
  "removeItem st k = st(k := None)"

text \<open>JavaScript truthiness of a \<^verbatim>\<open>getItem\<close> result: \<^verbatim>\<open>null\<close> and the empty string are falsy.\<close>

fun truthy :: "stored option \<Rightarrow> bool" where
  "truthy None = False"
| "truthy (Some (Text s)) = (s \<noteq> [])"
| "truthy (Some _) = True"

text \<open>\<^verbatim>\<open>a || b\<close> on two storage reads.\<close>

definition js_or :: "stored option \<Rightarrow> stored option \<Rightarrow> stored option" where
  "js_or a b = (if truthy a then a else b)"

text \<open>\<^verbatim>\<open>localStorage.getItem("jwt") || localStorage.getItem("sharthi_token")\<close>\<close>

definition getToken :: "storage \<Rightarrow> stored option" where
  "getToken st = js_or (getItem st ''jwt'') (getItem st ''sharthi_token'')"

section \<open>App: session and screen router\<close>

datatype Page =
    home | event_detail | booking | organizer | admin | chatbot | profile | search | my_bookings

datatype UserRole = creator | organizer_role | admin_role

record app_state =
  currentPage :: Page
  userRole :: UserRole
  selectedEventId :: "string option"
  isAuthenticated :: bool
  showAuth :: bool
  userEmail :: string
  localStorage :: storage

text \<open>The values of the \<^verbatim>\<open>useState\<close> initialisers, over a given storage.\<close>

definition initial_app :: "storage \<Rightarrow> app_state" where
  "initial_app st =
     \<lparr>currentPage = home, userRole = creator, selectedEventId = None,
      isAuthenticated = False, showAuth = False, userEmail = [], localStorage = st\<rparr>"

definition requiresAuth :: "Page set" where
  "requiresAuth = {booking, organizer, admin, my_bookings, profile}"

definition navigate :: "Page \<Rightarrow> app_state \<Rightarrow> app_state" where
  "navigate page s =
     (if page \<in> requiresAuth \<and> \<not> isAuthenticated s then s\<lparr>showAuth := True\<rparr>
      else s\<lparr>currentPage := page\<rparr>)"

definition navigateToEvent :: "string \<Rightarrow> app_state \<Rightarrow> app_state" where
  "navigateToEvent eid s = s\<lparr>selectedEventId := Some eid, currentPage := event_detail\<rparr>"

definition navigateToBooking :: "app_state \<Rightarrow> app_state" where
  "navigateToBooking s =
     (if \<not> isAuthenticated s then s\<lparr>showAuth := True\<rparr> else s\<lparr>currentPage := booking\<rparr>)"

definition handleLogin :: "string \<Rightarrow> UserRole \<Rightarrow> app_state \<Rightarrow> app_state" where
  "handleLogin email role s =
     (let s1 = s\<lparr>userEmail := email, userRole := role, isAuthenticated := True\<rparr>
      in if role = organizer_role then s1\<lparr>currentPage := organizer\<rparr>
         else if role = admin_role then s1\<lparr>currentPage := admin\<rparr>
         else s1\<lparr>currentPage := profile\<rparr>)"

definition logout_keys :: "string list" where
  "logout_keys = [''jwt'', ''sharthi_token'', ''sharthi_user'', ''sharthi_role_intent'',
                  ''sharthi_name_intent'', ''sharthi_phone_intent'']"

definition handleLogout :: "app_state \<Rightarrow> app_state" where
  "handleLogout s =
     s\<lparr>isAuthenticated := False, userEmail := [], userRole := creator,
       localStorage := foldl removeItem (localStorage s) logout_keys,
       currentPage := home\<rparr>"

section \<open>Strings and role mapping\<close>

text \<open>
  A string is given by its UTF-8 bytes. \<^verbatim>\<open>String.prototype.toUpperCase\<close> maps the letters
  \<open>a\<close> to \<open>z\<close> to \<open>A\<close> to \<open>Z\<close>. Beyond ASCII, the characters whose upper-case form is made
  of ASCII letters are mapped as Unicode has them: dotless i (U+0131, bytes C4 B1) to \<open>I\<close>,
  long s (U+017F, bytes C5 BF) to \<open>S\<close>, sharp s (U+00DF, bytes C3 9F) to \<open>SS\<close>, and the
  ligatures U+FB00 to U+FB06 (bytes EF AC 80 to EF AC 86) to \<open>FF\<close>, \<open>FI\<close>, \<open>FL\<close>, \<open>FFI\<close>,
  \<open>FFL\<close>, \<open>ST\<close> and \<open>ST\<close>. The upper-case form of every other character beyond ASCII
  holds a character beyond ASCII; its bytes are left as they are, which a comparison with an
  ASCII word cannot tell apart.
\<close>

definition toUpperCase_char :: "char \<Rightarrow> char" where
  "toUpperCase_char c =
     (let n = of_char c :: nat in if 97 \<le> n \<and> n \<le> 122 then char_of (n - 32) else c)"

definition is_dotless_i :: "char \<Rightarrow> char \<Rightarrow> bool" where
  "is_dotless_i c d = ((of_char c :: nat) = 196 \<and> (of_char d :: nat) = 177)"

definition special_upper2 :: "char \<Rightarrow> char \<Rightarrow> string option" where
  "special_upper2 c d =
     (if is_dotless_i c d then Some ''I''
      else if (of_char c :: nat) = 197 \<and> (of_char d :: nat) = 191 then Some ''S''
      else if (of_char c :: nat) = 195 \<and> (of_char d :: nat) = 159 then Some ''SS''
      else None)"

definition special_upper3 :: "char \<Rightarrow> char \<Rightarrow> char \<Rightarrow> string option" where
  "special_upper3 c d e =
     (if (of_char c :: nat) = 239 \<and> (of_char d :: nat) = 172
      then (let k = of_char e :: nat
            in if k = 128 then Some ''FF''
               else if k = 129 then Some ''FI''
               else if k = 130 then Some ''FL''
               else if k = 131 then Some ''FFI''
               else if k = 132 then Some ''FFL''
               else if k = 133 \<or> k = 134 then Some ''ST''
               else None)
      else None)"

fun toUpperCase :: "string \<Rightarrow> string" where
  "toUpperCase [] = []"
| "toUpperCase [c] = [toUpperCase_char c]"
| "toUpperCase [c, d] =
     (case special_upper2 c d of
        Some up \<Rightarrow> up
      | None \<Rightarrow> toUpperCase_char c # toUpperCase [d])"
| "toUpperCase (c # d # e # r) =
     (case special_upper3 c d e of
        Some up \<Rightarrow> up @ toUpperCase r
      | None \<Rightarrow>
          (case special_upper2 c d of
             Some up \<Rightarrow> up @ toUpperCase (e # r)
           | None \<Rightarrow> toUpperCase_char c # toUpperCase (d # e # r)))"

text \<open>
  \<^verbatim>\<open>x || d\<close> for a string-valued property \<open>x\<close> that may be absent: \<^verbatim>\<open>undefined\<close>, \<^verbatim>\<open>null\<close>
  and the empty string are falsy.
\<close>

definition or_default :: "string option \<Rightarrow> string \<Rightarrow> string" where
  "or_default x d = (case x of None \<Rightarrow> d | Some s \<Rightarrow> if s = [] then d else s)"

text \<open>\<^verbatim>\<open>toUiRole\<close> of the Auth dialog.\<close>

definition toUiRole :: "string option \<Rightarrow> UserRole" where
  "toUiRole raw =
     (let r = toUpperCase (or_default raw ''CREATOR'')
      in if r = ''ORGANIZER'' then organizer_role
         else if r = ''ADMIN'' then admin_role
         else creator)"

section \<open>Session restore\<close>

text \<open>
  What \<^verbatim>\<open>fetch\<close> followed by \<^verbatim>\<open>res.json()\<close> can give: the request itself rejects
  with an error (its name, such as \<^verbatim>\<open>AbortError\<close> or \<^verbatim>\<open>TypeError\<close>, and its message), or a
  response arrives with its \<^verbatim>\<open>ok\<close> flag, its status text and a body. The body does not
  parse (\<^verbatim>\<open>res.json()\<close> rejects), parses to \<^verbatim>\<open>null\<close>, or parses to a value whose
  properties can be read.
\<close>

datatype 'a body = Unparseable | JsonNull | Json 'a

datatype js_error = Error string string

datatype 'a fetch_result = Rejected js_error | Response bool string "'a body"

text \<open>The two properties \<^verbatim>\<open>meFromToken\<close> reads off the \<^verbatim>\<open>/auth/me\<close> body.\<close>

record me_user =
  u_role :: "string option"
  u_email :: "string option"

definition meFromToken :: "storage \<Rightarrow> me_user fetch_result \<Rightarrow> (UserRole \<times> string) option" where
  "meFromToken st res =
     (if \<not> truthy (getToken st) then None
      else case res of
        Rejected _ \<Rightarrow> None
      | Response ok _ b \<Rightarrow>
          if \<not> ok then None
          else (case b of
              Unparseable \<Rightarrow> None
            | JsonNull \<Rightarrow> None
            | Json u \<Rightarrow>
                let rawRole = toUpperCase (or_default (u_role u) ''CREATOR'');
                    r = (if rawRole = ''ORGANIZER'' then organizer_role
                         else if rawRole = ''ADMIN'' then admin_role
                         else creator)
                in Some (r, or_default (u_email u) [])))"

text \<open>The auto-login effect of \<^verbatim>\<open>App\<close>: it sets the user, never the page.\<close>

definition restoreSession :: "me_user fetch_result \<Rightarrow> app_state \<Rightarrow> app_state" where
  "restoreSession res s =
     (case meFromToken (localStorage s) res of
        None \<Rightarrow> s
      | Some (r, e) \<Rightarrow> s\<lparr>isAuthenticated := True, userEmail := e, userRole := r\<rparr>)"

text \<open>The identity lookup succeeded: an ok response whose body parsed to a non-null value.\<close>

fun lookup_succeeded :: "'a fetch_result \<Rightarrow> bool" where
  "lookup_succeeded (Response ok _ (Json _)) = ok"
| "lookup_succeeded _ = False"

text \<open>
  A casing of an upper-case word: the same length, and at each position the word's letter
  or its lower-case form (32 code points further).
\<close>

definition either_case :: "char \<Rightarrow> char \<Rightarrow> bool" where
  "either_case u c = (c = u \<or> (of_char c :: nat) = of_char u + 32)"

definition casing_of :: "string \<Rightarrow> string \<Rightarrow> bool" where
  "casing_of w s = list_all2 either_case w s"

text \<open>
  A casing in the sense of \<^verbatim>\<open>toUpperCase\<close>: as before, and where the word has \<open>I\<close> the string
  may also have dotless i.
\<close>

fun unicode_casing_of :: "string \<Rightarrow> string \<Rightarrow> bool" where
  "unicode_casing_of [] s = (s = [])"
| "unicode_casing_of (u # w) [] = False"
| "unicode_casing_of (u # w) (c # r) =
     ((either_case u c \<and> unicode_casing_of w r)
      \<or> (u = CHR ''I''
          \<and> (case r of [] \<Rightarrow> False | d # r' \<Rightarrow> is_dotless_i c d \<and> unicode_casing_of w r')))"

text \<open>
  An upper-case letter other than \<open>S\<close> and \<open>F\<close>: only such a letter, or dotless i for \<open>I\<close>,
  has an upper-case form that starts with it.
\<close>

definition plain_upper :: "char \<Rightarrow> bool" where
  "plain_upper u =
     (65 \<le> (of_char u::nat) \<and> (of_char u::nat) \<le> 90 \<and> u \<noteq> CHR ''S'' \<and> u \<noteq> CHR ''F'')"

text \<open>The role strings \<^verbatim>\<open>adm\<close>, dotless i, \<^verbatim>\<open>n\<close> and \<^verbatim>\<open>organ\<close>, dotless i, \<^verbatim>\<open>zer\<close>.\<close>

definition dotless_admin :: string where
  "dotless_admin = ''adm'' @ [CHR 0xC4, CHR 0xB1] @ ''n''"

definition dotless_organizer :: string where
  "dotless_organizer = ''organ'' @ [CHR 0xC4, CHR 0xB1] @ ''zer''"

section \<open>JavaScript numbers\<close>

text \<open>
  A JavaScript number is an IEEE double: a finite value, \<^verbatim>\<open>NaN\<close> or an infinity. Finite
  values are carried as rationals. The result of an arithmetic operation is the exact
  result rounded to 53 significant bits, ties to even (\<open>fl53\<close>); the exponent range is
  not bounded, which differs from a double only at magnitudes from \<open>2 ^ 1024\<close> on and below
  \<open>2 ^ - 1022\<close>. Counts and whole-rupee sums are integers (below \<open>2 ^ 53\<close> every integer is
  a double) and enter the arithmetic where the code divides.
\<close>

datatype number = Num rat | NaN | PosInfinity | NegInfinity

text \<open>For \<open>0 < x\<close>, the exponent \<open>e\<close> with \<open>2 ^ e \<le> x < 2 ^ (e + 1)\<close>.\<close>

definition binade :: "rat \<Rightarrow> int" where
  "binade x =
     (let (a, b) = quotient_of x; e0 = bitlen a - bitlen b
      in if 2 powi e0 \<le> x then e0 else e0 - 1)"

definition round_half_even :: "rat \<Rightarrow> int" where
  "round_half_even m =
     (let f = \<lfloor>m\<rfloor>; d = m - of_int f
      in if d < 1 / 2 then f else if 1 / 2 < d then f + 1 else if even f then f else f + 1)"

definition fl53 :: "rat \<Rightarrow> rat" where
  "fl53 x =
     (if x = 0 then 0
      else let u = 2 powi (binade \<bar>x\<bar> - 52)
           in of_int (round_half_even (x / u)) * u)"

text \<open>\<^verbatim>\<open>n / d\<close> on two whole numbers. Dividing by zero gives \<^verbatim>\<open>NaN\<close> or an infinity.\<close>

definition js_div :: "int \<Rightarrow> int \<Rightarrow> number" where
  "js_div n d =
     (if d = 0 then (if n = 0 then NaN else if 0 < n then PosInfinity else NegInfinity)
      else Num (fl53 (of_int n / of_int d)))"

text \<open>\<^verbatim>\<open>v * c\<close> for a whole constant \<open>c\<close>.\<close>

fun js_times :: "number \<Rightarrow> int \<Rightarrow> number" where
  "js_times (Num x) c = Num (fl53 (x * of_int c))"
| "js_times NaN c = NaN"
| "js_times PosInfinity c = (if c = 0 then NaN else if 0 < c then PosInfinity else NegInfinity)"
| "js_times NegInfinity c = (if c = 0 then NaN else if 0 < c then NegInfinity else PosInfinity)"

text \<open>\<^verbatim>\<open>Math.round\<close>: the nearest integer, a half rounding up.\<close>

fun Math_round :: "number \<Rightarrow> number" where
  "Math_round (Num x) = Num (of_int \<lfloor>x + 1 / 2\<rfloor>)"
| "Math_round v = v"

text \<open>\<^verbatim>\<open>Math.max(c, v)\<close> for a whole constant \<open>c\<close>.\<close>

fun Math_max :: "int \<Rightarrow> number \<Rightarrow> number" where
  "Math_max c (Num x) = Num (max (of_int c) x)"
| "Math_max c NaN = NaN"
| "Math_max c PosInfinity = PosInfinity"
| "Math_max c NegInfinity = Num (of_int c)"

text \<open>
  A number held in a whole-rupee field. \<^verbatim>\<open>Math.round\<close> of a finite value is whole; a value
  that is not finite is written by \<^verbatim>\<open>JSON.stringify\<close> as \<^verbatim>\<open>null\<close>, which the checkout reads
  as 0.
\<close>

fun whole :: "number \<Rightarrow> int" where
  "whole (Num x) = \<lfloor>x\<rfloor>"
| "whole _ = 0"

section \<open>Effects a screen has on its surroundings\<close>

datatype effect =
    ToastError string
  | ToastInfo string
  | ToastSuccess string
  | ToastLoading string
  | ToastDismiss string
  | OnBack
  | OnBookStall
  | OnSuccess

section \<open>EventDetail\<close>

record Stall =
  s_id :: string
  s_name :: "string option"
  s_tier :: string
  s_price :: int
  s_qtyTotal :: int
  s_qtyLeft :: int
  s_specs :: "string option"

record EventMeta =
  e_id :: string
  e_title :: string
  e_cityId :: string
  e_startAt :: string
  e_endAt :: string

record ed_state =
  ed_eid :: "string option"
  ed_loading :: bool
  ed_stalls :: "Stall list"
  ed_eventMeta :: "EventMeta option"

definition is_alnum :: "char \<Rightarrow> bool" where
  "is_alnum c =
     (let n = of_char c :: nat
      in (48 \<le> n \<and> n \<le> 57) \<or> (65 \<le> n \<and> n \<le> 90) \<or> (97 \<le> n \<and> n \<le> 122))"

text \<open>\<^verbatim>\<open>!!id && id.length >= 24 && /^[a-z0-9]+$/i.test(id)\<close>\<close>

definition isRealId :: "string option \<Rightarrow> bool" where
  "isRealId x =
     (case x of None \<Rightarrow> False
      | Some s \<Rightarrow> s \<noteq> [] \<and> 24 \<le> length s \<and> list_all is_alnum s)"

text \<open>
  \<^verbatim>\<open>await fetch(...).then(r => r.json()).catch(() => [])\<close>: a rejected request and a body
  that does not parse both give the empty list; the \<^verbatim>\<open>ok\<close> flag is not looked at. \<open>None\<close>
  is a body that parsed to \<^verbatim>\<open>null\<close>. A body that parsed to a value is taken at its declared
  type, a list.
\<close>

fun json_or_empty :: "'a list fetch_result \<Rightarrow> 'a list option" where
  "json_or_empty (Rejected _) = Some []"
| "json_or_empty (Response _ _ Unparseable) = Some []"
| "json_or_empty (Response _ _ JsonNull) = None"
| "json_or_empty (Response _ _ (Json l)) = Some l"

text \<open>
  The first effect of \<^verbatim>\<open>EventDetail\<close>: fetch \<^verbatim>\<open>/events\<close> and resolve the id to show. On a
  \<^verbatim>\<open>null\<close> body \<^verbatim>\<open>list.some\<close> or \<^verbatim>\<open>list.length\<close> throws and the \<^verbatim>\<open>catch\<close> runs.
\<close>

definition resolveEvent ::
  "string option \<Rightarrow> EventMeta list fetch_result \<Rightarrow> ed_state \<Rightarrow> ed_state \<times> effect list" where
  "resolveEvent eventId res s =
     (case json_or_empty res of
        None \<Rightarrow> (s, [ToastError ''Failed to load event.'', OnBack])
      | Some list \<Rightarrow>
          if isRealId eventId \<and> list_ex (\<lambda>e. Some (e_id e) = eventId) list
          then (s\<lparr>ed_eid := eventId,
                  ed_eventMeta := find (\<lambda>e. Some (e_id e) = eventId) list\<rparr>, [])
          else (case list of
              e0 # _ \<Rightarrow>
                (s\<lparr>ed_eid := Some (e_id e0),
                   ed_eventMeta := find (\<lambda>e. e_id e = e_id e0) list\<rparr>, [])
            | [] \<Rightarrow> (s, [ToastError ''No events found. Please seed the database.'', OnBack])))"

text \<open>Tier cards. \<open>byTier\<close> is the \<^verbatim>\<open>Map\<close> from tier key to the stalls pushed under it.\<close>

definition tier_key :: "Stall \<Rightarrow> string" where
  "tier_key s = toUpperCase (if s_tier s = [] then ''SILVER'' else s_tier s)"

definition get_or_empty :: "(string \<rightharpoonup> Stall list) \<Rightarrow> string \<Rightarrow> Stall list" where
  "get_or_empty m k = (case m k of None \<Rightarrow> [] | Some arr \<Rightarrow> arr)"

fun byTier :: "(string \<rightharpoonup> Stall list) \<Rightarrow> Stall list \<Rightarrow> (string \<rightharpoonup> Stall list)" where
  "byTier m [] = m"
| "byTier m (s # ss) = byTier (m(tier_key s \<mapsto> get_or_empty m (tier_key s) @ [s])) ss"

record TierCard =
  tc_id :: string
  tc_name :: string
  tc_price :: int
  tc_size :: string
  tc_features :: "string list"
  tc_available :: int
  tc_total :: int
  tc_popular :: bool
  tc_sampleStallId :: "string option"

definition toLowerCase_char :: "char \<Rightarrow> char" where
  "toLowerCase_char c =
     (let n = of_char c :: nat in if 65 \<le> n \<and> n \<le> 90 then char_of (n + 32) else c)"

text \<open>
  \<^verbatim>\<open>String.prototype.toLowerCase\<close>, on UTF-8 bytes as above: \<open>A\<close> to \<open>Z\<close> become \<open>a\<close> to \<open>z\<close>,
  and the one character beyond ASCII whose lower-case form is ASCII, the Kelvin sign (U+212A,
  bytes E2 84 AA), becomes \<open>k\<close>. The bytes of other characters beyond ASCII are left as
  they are; the screen lower-cases only the three tier keys.
\<close>

definition is_kelvin_sign :: "char \<Rightarrow> char \<Rightarrow> char \<Rightarrow> bool" where
  "is_kelvin_sign c d e =
     ((of_char c :: nat) = 226 \<and> (of_char d :: nat) = 132 \<and> (of_char e :: nat) = 170)"

fun toLowerCase :: "string \<Rightarrow> string" where
  "toLowerCase [] = []"
| "toLowerCase (c # d # e # r) =
     (if is_kelvin_sign c d e then CHR ''k'' # toLowerCase r
      else toLowerCase_char c # toLowerCase (d # e # r))"
| "toLowerCase (c # r) = toLowerCase_char c # toLowerCase r"

definition mkCard ::
  "(string \<rightharpoonup> Stall list) \<Rightarrow> string \<Rightarrow> string \<Rightarrow> string list \<Rightarrow> bool \<Rightarrow> TierCard" where
  "mkCard m key label features popular =
     (let arr = get_or_empty m key;
          total = foldl (\<lambda>t s. t + s_qtyTotal s) 0 arr;
          left = foldl (\<lambda>t s. t + s_qtyLeft s) 0 arr;
          price =
            (if arr \<noteq> []
             then whole (Math_round (js_div (foldl (\<lambda>t s. t + s_price s) 0 arr) (int (length arr))))
             else if key = ''GOLD'' then 12000
             else if key = ''SILVER'' then 8000
             else 5000)
      in \<lparr>tc_id = toLowerCase key,
          tc_name = label,
          tc_price = price,
          tc_size = (if key = ''GOLD'' then ''15x15 ft''
                     else if key = ''SILVER'' then ''12x12 ft'' else ''10x10 ft''),
          tc_features = features,
          tc_available = left,
          tc_total = total,
          tc_popular = popular,
          tc_sampleStallId =
            (case arr of [] \<Rightarrow> None
             | s0 # _ \<Rightarrow> if s_id s0 = [] then None else Some (s_id s0))\<rparr>)"

definition tierCards :: "Stall list \<Rightarrow> TierCard list" where
  "tierCards ss =
     (let m = byTier Map.empty ss
      in [mkCard m ''BRONZE'' ''Basic'' [''Basic Setup'', ''Electricity'', ''Table & Chairs''] False,
          mkCard m ''SILVER'' ''Premium''
            [''Premium Setup'', ''Electricity'', ''Furniture'', ''Branding Space''] True,
          mkCard m ''GOLD'' ''VIP''
            [''VIP Setup'', ''Premium Electricity'', ''Full Furniture'', ''Prime Location'',
             ''Dedicated Support''] False])"

definition onSelectTier :: "ed_state \<Rightarrow> storage \<Rightarrow> TierCard \<Rightarrow> storage \<times> effect list" where
  "onSelectTier s st tierCard =
     (case ed_eid s of
        None \<Rightarrow> (st, [])
      | Some e \<Rightarrow>
          if e = [] then (st, [])
          else (case tc_sampleStallId tierCard of
              None \<Rightarrow> (st, [ToastInfo ''No stalls left in this tier.''])
            | Some sid \<Rightarrow>
                if 0 < tc_total tierCard \<and> tc_available tierCard \<le> 0
                then (st, [ToastInfo ''No stalls left in this tier.''])
                else (setItem st ''sharthi_booking_draft''
                        (DraftDoc \<lparr>d_eventId = e, d_stallId = sid, d_tier = tc_name tierCard,
                                   d_price = tc_price tierCard\<rparr>),
                      [OnBookStall])))"

text \<open>The tier button and the availability bar.\<close>

definition select_disabled :: "TierCard \<Rightarrow> bool" where
  "select_disabled c = (0 < tc_total c \<and> tc_available c \<le> 0)"

definition select_label :: "TierCard \<Rightarrow> string" where
  "select_label c = (if 0 < tc_total c \<and> tc_available c \<le> 0 then ''Sold Out'' else ''Select Tier'')"

datatype bar_width = Percent number | Full

definition availability_bar :: "TierCard \<Rightarrow> bar_width" where
  "availability_bar c =
     (if 0 < tc_total c
      then Percent (Math_max 2 (js_times (js_div (tc_available c) (tc_total c)) 100))
      else Full)"

text \<open>The stalls of one tier, as a filter of the fetched list.\<close>

definition stalls_of_tier :: "string \<Rightarrow> Stall list \<Rightarrow> Stall list" where
  "stalls_of_tier key ss = filter (\<lambda>s. tier_key s = key) ss"

text \<open>The events list the first effect works on; a \<^verbatim>\<open>null\<close> body holds no event.\<close>

definition fetched_events :: "EventMeta list fetch_result \<Rightarrow> EventMeta list" where
  "fetched_events res = (case json_or_empty res of None \<Rightarrow> [] | Some l \<Rightarrow> l)"

text \<open>Example stalls: two of five left, none of five left, and no capacity recorded.\<close>

definition example_stall :: "int \<Rightarrow> int \<Rightarrow> Stall" where
  "example_stall qtot qleft =
     \<lparr>s_id = ''S1'', s_name = None, s_tier = ''GOLD'', s_price = 10000,
      s_qtyTotal = qtot, s_qtyLeft = qleft, s_specs = None\<rparr>"

definition example_detail :: ed_state where
  "example_detail = \<lparr>ed_eid = Some ''E1'', ed_loading = False, ed_stalls = [], ed_eventMeta = None\<rparr>"

definition gold_card :: "int \<Rightarrow> int \<Rightarrow> TierCard" where
  "gold_card qtot qleft =
     \<lparr>tc_id = ''gold'', tc_name = ''VIP'', tc_price = 10000, tc_size = ''15x15 ft'',
      tc_features = [''VIP Setup'', ''Premium Electricity'', ''Full Furniture'', ''Prime Location'',
                     ''Dedicated Support''],
      tc_available = qleft, tc_total = qtot, tc_popular = False,
      tc_sampleStallId = Some ''S1''\<rparr>"

definition example_event :: EventMeta where
  "example_event =
     \<lparr>e_id = ''cm1a2b3c4d5e6f7g8h9i0j1k'', e_title = ''Craft Fair'', e_cityId = ''Delhi'',
      e_startAt = ''2025-01-10'', e_endAt = ''2025-01-12''\<rparr>"

section \<open>AdminDashboard: booking analytics\<close>

text \<open>The two fields of a booking row that the analytics read.\<close>

record AdminBookingRow =
  b_status :: string
  b_amount :: int

record analytics =
  paidCount :: int
  pendingCount :: int
  cancelledCount :: int
  paidAmount :: int

definition count_booking :: "analytics \<Rightarrow> AdminBookingRow \<Rightarrow> analytics" where
  "count_booking a b =
     (if b_status b = ''paid''
      then a\<lparr>paidCount := paidCount a + 1, paidAmount := paidAmount a + b_amount b\<rparr>
      else if b_status b = ''pending'' then a\<lparr>pendingCount := pendingCount a + 1\<rparr>
      else if b_status b = ''cancelled'' then a\<lparr>cancelledCount := cancelledCount a + 1\<rparr>
      else a)"

definition booking_analytics :: "AdminBookingRow list \<Rightarrow> analytics" where
  "booking_analytics bookings =
     foldl count_booking \<lparr>paidCount = 0, pendingCount = 0, cancelledCount = 0, paidAmount = 0\<rparr>
       bookings"

definition totalBookings :: "AdminBookingRow list \<Rightarrow> int" where
  "totalBookings bookings = int (length bookings)"

text \<open>
  The fill rate of an event card on the organizer dashboard:
  \<^verbatim>\<open>Math.round((stallsSold / Math.max(1, stallsTotal)) * 100)\<close>
\<close>

definition fill_rate :: "int \<Rightarrow> int \<Rightarrow> number" where
  "fill_rate stallsSold stallsTotal =
     Math_round (js_times (js_div stallsSold (max 1 stallsTotal)) 100)"

definition successRate :: "AdminBookingRow list \<Rightarrow> number" where
  "successRate bookings =
     (if 0 < totalBookings bookings
      then Math_round
             (js_times (js_div (paidCount (booking_analytics bookings)) (totalBookings bookings)) 100)
      else Num 0)"

section \<open>BookingFlow\<close>

datatype step = review | payment | success

record bf_state =
  bf_step :: step
  bf_draft :: "Draft option"
  bf_event :: "EventMeta option"
  bf_stall :: "Stall option"
  bf_loading :: bool

text \<open>The properties of a parsed response body that the booking flow reads.\<close>

record api_body =
  a_error :: "string option"
  a_message :: "string option"
  a_paymentRef :: "string option"

definition json_syntax_error :: js_error where
  "json_syntax_error = Error ''SyntaxError'' ''Unexpected end of JSON input''"

definition null_property_error :: js_error where
  "null_property_error = Error ''TypeError'' ''Cannot read properties of null''"

text \<open>
  The helper \<^verbatim>\<open>api\<close>: it throws (\<open>Inl\<close>) when \<^verbatim>\<open>fetch\<close> rejects, when the response is not
  ok (with the body's \<^verbatim>\<open>error\<close> or \<^verbatim>\<open>message\<close>, else the status text) and when an ok body
  does not parse; otherwise it returns the parsed body, \<open>None\<close> for \<^verbatim>\<open>null\<close>.
\<close>

definition api :: "api_body fetch_result \<Rightarrow> js_error + api_body option" where
  "api res =
     (case res of
        Rejected e \<Rightarrow> Inl e
      | Response ok statusText b \<Rightarrow>
          if \<not> ok
          then Inl (Error ''Error''
                 (case b of
                    Json t \<Rightarrow> or_default (a_error t) (or_default (a_message t) statusText)
                  | _ \<Rightarrow> statusText))
          else (case b of
              Unparseable \<Rightarrow> Inl json_syntax_error
            | JsonNull \<Rightarrow> Inr None
            | Json t \<Rightarrow> Inr (Some t)))"

text \<open>\<^verbatim>\<open>const { paymentRef } = await api(...)\<close>: destructuring \<^verbatim>\<open>null\<close> throws.\<close>

definition take_paymentRef :: "js_error + api_body option \<Rightarrow> js_error + string option" where
  "take_paymentRef r =
     (case r of
        Inl e \<Rightarrow> Inl e
      | Inr None \<Rightarrow> Inl null_property_error
      | Inr (Some t) \<Rightarrow> Inr (a_paymentRef t))"

record booking_request =
  r_eventId :: string
  r_stallId :: string
  r_amount :: int
  r_paymentRef :: "string option"

datatype request = PostPaymentsMock | PostBookings booking_request

record totals =
  t_base :: int
  t_platform :: int
  t_gst :: int
  t_total :: int

definition totals_of :: "bf_state \<Rightarrow> totals" where
  "totals_of s =
     (let base = (case bf_draft s of None \<Rightarrow> 0 | Some d \<Rightarrow> d_price d);
          platform = 0;
          gst = 0
      in \<lparr>t_base = base, t_platform = platform, t_gst = gst, t_total = base + platform + gst\<rparr>)"

text \<open>
  The mount effect reads the draft. \<open>None\<close>: the stored string is not a draft document
  (\<^verbatim>\<open>JSON.parse\<close> throws or gives another shape); the only writer of the key stores a draft.
\<close>

definition bf_mount :: "storage \<Rightarrow> bf_state \<Rightarrow> (bf_state \<times> effect list) option" where
  "bf_mount st s =
     (let raw = getItem st ''sharthi_booking_draft''
      in if \<not> truthy raw then Some (s, [ToastError ''No stall selected.'', OnBack])
         else (case raw of
             Some (DraftDoc d) \<Rightarrow> Some (s\<lparr>bf_draft := Some d\<rparr>, [])
           | _ \<Rightarrow> None))"

text \<open>The button of the review step is disabled while loading or without a draft.\<close>

definition proceedToPayment :: "bf_state \<Rightarrow> bf_state" where
  "proceedToPayment s =
     (if bf_loading s \<or> bf_draft s = None then s else s\<lparr>bf_step := payment\<rparr>)"

text \<open>
  The local mirror of the new booking, inside its own \<^verbatim>\<open>try\<close>: when the stored value is not
  a list of bookings, parsing or \<^verbatim>\<open>unshift\<close> throws and storage is left as it is. \<open>now\<close> is
  the text of \<^verbatim>\<open>Date.now()\<close>.
\<close>

definition mirror_booking :: "string \<Rightarrow> bf_state \<Rightarrow> Draft \<Rightarrow> storage \<Rightarrow> storage" where
  "mirror_booking now s draft st =
     (let mineRaw = getItem st ''sharthi_my_bookings'';
          entry =
            \<lparr>lb_id = ''BK-'' @ now,
             lb_event = (case bf_event s of None \<Rightarrow> ''Event''
                         | Some e \<Rightarrow> or_default (Some (e_title e)) ''Event''),
             lb_dateStart = (case bf_event s of None \<Rightarrow> None
                             | Some e \<Rightarrow> if e_startAt e = [] then None else Some (e_startAt e)),
             lb_dateEnd = (case bf_event s of None \<Rightarrow> None
                           | Some e \<Rightarrow> if e_endAt e = [] then None else Some (e_endAt e)),
             lb_location = (case bf_event s of None \<Rightarrow> [] | Some e \<Rightarrow> e_cityId e),
             lb_tier = d_tier draft,
             lb_stallNumber = (case bf_stall s of None \<Rightarrow> [] | Some x \<Rightarrow> or_default (s_name x) []),
             lb_amount = t_total (totals_of s),
             lb_status = ''confirmed'',
             lb_reviewed = False,
             lb_rating = 0\<rparr>
      in if \<not> truthy mineRaw then setItem st ''sharthi_my_bookings'' (BookingsDoc [entry])
         else (case mineRaw of
             Some (BookingsDoc mine) \<Rightarrow> setItem st ''sharthi_my_bookings'' (BookingsDoc (entry # mine))
           | _ \<Rightarrow> st))"

record payment_run =
  o_state :: bf_state
  o_storage :: storage
  o_effects :: "effect list"
  o_requests :: "request list"

definition catch_message :: "js_error \<Rightarrow> string" where
  "catch_message e = (case e of Error _ m \<Rightarrow> or_default (Some m) ''Payment failed. Please try again.'')"

text \<open>
  \<^verbatim>\<open>handlePayment\<close>. \<open>pay\<close> is what the network answers to \<^verbatim>\<open>POST /payments/mock\<close>, \<open>book\<close>
  what it answers to the booking request it is sent. The requests made are returned in
  order.
\<close>

definition handlePayment ::
  "string \<Rightarrow> api_body fetch_result \<Rightarrow> (booking_request \<Rightarrow> api_body fetch_result)
     \<Rightarrow> bf_state \<Rightarrow> storage \<Rightarrow> payment_run" where
  "handlePayment now pay book s st =
     (case bf_draft s of
        None \<Rightarrow> \<lparr>o_state = s, o_storage = st, o_effects = [], o_requests = []\<rparr>
      | Some draft \<Rightarrow>
          if \<not> truthy (getToken st)
          then \<lparr>o_state = s, o_storage = st,
                o_effects = [ToastError ''Please sign in to complete your booking.''],
                o_requests = []\<rparr>
          else (case take_paymentRef (api pay) of
              Inl e \<Rightarrow>
                \<lparr>o_state = s, o_storage = st,
                 o_effects = [ToastLoading ''pay'', ToastDismiss ''pay'', ToastError (catch_message e)],
                 o_requests = [PostPaymentsMock]\<rparr>
            | Inr ref \<Rightarrow>
                let req = \<lparr>r_eventId = d_eventId draft, r_stallId = d_stallId draft,
                           r_amount = t_total (totals_of s), r_paymentRef = ref\<rparr>
                in (case api (book req) of
                    Inl e \<Rightarrow>
                      \<lparr>o_state = s, o_storage = st,
                       o_effects = [ToastLoading ''pay'', ToastDismiss ''pay'',
                                    ToastError (catch_message e)],
                       o_requests = [PostPaymentsMock, PostBookings req]\<rparr>
                  | Inr _ \<Rightarrow>
                      \<lparr>o_state = s\<lparr>bf_step := success\<rparr>,
                       o_storage =
                         mirror_booking now s draft (removeItem st ''sharthi_booking_draft''),
                       o_effects = [ToastLoading ''pay'', ToastDismiss ''pay'',
                                    ToastSuccess ''Payment successful! Your stall is confirmed.''],
                       o_requests = [PostPaymentsMock, PostBookings req]\<rparr>)))"

text \<open>The booking request the flow builds from a draft and a payment reference.\<close>

definition booking_request_of :: "Draft \<Rightarrow> string option \<Rightarrow> booking_request" where
  "booking_request_of d ref =
     \<lparr>r_eventId = d_eventId d, r_stallId = d_stallId d, r_amount = d_price d, r_paymentRef = ref\<rparr>"

text \<open>
  A call succeeded: the payment call returned a body whose reference could be taken, the
  booking call returned at all.
\<close>

definition payment_ok :: "api_body fetch_result \<Rightarrow> bool" where
  "payment_ok pay = (case take_paymentRef (api pay) of Inl _ \<Rightarrow> False | Inr _ \<Rightarrow> True)"

definition payment_ref :: "api_body fetch_result \<Rightarrow> string option" where
  "payment_ref pay = (case take_paymentRef (api pay) of Inl _ \<Rightarrow> None | Inr ref \<Rightarrow> ref)"

definition booking_ok :: "api_body fetch_result \<Rightarrow> bool" where
  "booking_ok res = (case api res of Inl _ \<Rightarrow> False | Inr _ \<Rightarrow> True)"

definition example_draft :: Draft where
  "example_draft = \<lparr>d_eventId = ''E1'', d_stallId = ''S1'', d_tier = ''Premium'', d_price = 8000\<rparr>"

definition example_store :: storage where
  "example_store = [''jwt'' \<mapsto> Text ''t'', ''sharthi_booking_draft'' \<mapsto> DraftDoc example_draft]"

definition example_flow :: bf_state where
  "example_flow =
     \<lparr>bf_step = payment, bf_draft = Some example_draft, bf_event = None, bf_stall = None,
      bf_loading = False\<rparr>"

definition ok_body :: "api_body fetch_result" where
  "ok_body = Response True ''OK'' (Json \<lparr>a_error = None, a_message = None, a_paymentRef = Some ''PAY-1''\<rparr>)"

definition failed_body :: "api_body fetch_result" where
  "failed_body =
     Response False ''Conflict'' (Json \<lparr>a_error = Some ''Sold out'', a_message = None, a_paymentRef = None\<rparr>)"

section \<open>Effects that fetch, and their cleanup\<close>

text \<open>
  The closure variables of one run of a \<^verbatim>\<open>useEffect\<close> body: its cancel flag, and whether its
  \<^verbatim>\<open>AbortController\<close> has been aborted. A run starts with both false.
\<close>

record effect_vars =
  ev_cancel :: bool
  ev_aborted :: bool

definition fresh_vars :: effect_vars where
  "fresh_vars = \<lparr>ev_cancel = False, ev_aborted = False\<rparr>"

definition abort_error :: js_error where
  "abort_error = Error ''AbortError'' ''The operation was aborted.''"

text \<open>
  What awaiting a request gives. A request that was handed the controller's signal rejects
  with \<^verbatim>\<open>AbortError\<close> once the controller is aborted; a request without a signal gives what
  the network gives.
\<close>

definition settle :: "effect_vars \<Rightarrow> bool \<Rightarrow> 'a fetch_result \<Rightarrow> 'a fetch_result" where
  "settle v has_signal res = (if has_signal \<and> ev_aborted v then Rejected abort_error else res)"

record fetch_request =
  q_url :: string
  q_signal :: bool

subsection \<open>SearchPage\<close>

datatype ('e, 'c) sp_update = SpSetLoading bool | SetEvents "'e list" | SetCreators "'c list"

text \<open>\<^verbatim>\<open>return () => { cancel = true; controller.abort(); }\<close>\<close>

definition sp_cleanup :: "effect_vars \<Rightarrow> effect_vars" where
  "sp_cleanup v = v\<lparr>ev_cancel := True, ev_aborted := True\<rparr>"

text \<open>
  \<^verbatim>\<open>load()\<close> after its first line. \<open>evRes\<close> answers the events request; \<open>hydrate\<close> stands
  for the stall and creator requests and the mapping to cards, which catch their own
  failures. The result is the state updates and the toasts.
\<close>

definition sp_load ::
  "effect_vars \<Rightarrow> 'a list fetch_result \<Rightarrow> ('a list \<Rightarrow> 'e list \<times> 'c list)
     \<Rightarrow> ('e, 'c) sp_update list \<times> effect list" where
  "sp_load v evRes hydrate =
     (let fin = (if \<not> ev_cancel v then [SpSetLoading False] else []);
          tried =
            (case settle v True evRes of
               Rejected e \<Rightarrow> Inl e
             | Response ok _ b \<Rightarrow>
                 if ok
                 then (case b of
                     Unparseable \<Rightarrow> Inl json_syntax_error
                   | JsonNull \<Rightarrow> Inl null_property_error
                   | Json l \<Rightarrow> Inr (hydrate l))
                 else Inr (hydrate []))
      in case tried of
           Inr (ev, cr) \<Rightarrow> ((if \<not> ev_cancel v then [SetEvents ev, SetCreators cr] else []) @ fin, [])
         | Inl (Error name _) \<Rightarrow>
             (fin, if name \<noteq> ''AbortError'' \<and> \<not> ev_cancel v
                   then [ToastError ''Failed to load search results.''] else []))"

definition sp_unmount_then_resolve ::
  "'a list fetch_result \<Rightarrow> ('a list \<Rightarrow> 'e list \<times> 'c list) \<Rightarrow> ('e, 'c) sp_update list \<times> effect list" where
  "sp_unmount_then_resolve evRes hydrate = sp_load (sp_cleanup fresh_vars) evRes hydrate"

subsection \<open>OrganizerDashboard\<close>

text \<open>The body of \<^verbatim>\<open>/organizers/me/events\<close>: an array, or an object read for \<^verbatim>\<open>items\<close>,
  \<^verbatim>\<open>error\<close> and \<^verbatim>\<open>message\<close>.\<close>

datatype 'e listing = Items "'e list" | Page "'e list option" "string option" "string option"

datatype 'c od_update = SetMyEvents "'c list" | SetLoading bool

text \<open>\<^verbatim>\<open>jsonFetch\<close>: a body that does not parse leaves \<^verbatim>\<open>data\<close> null.\<close>

definition jsonFetch :: "'e listing fetch_result \<Rightarrow> js_error + 'e listing option" where
  "jsonFetch res =
     (case res of
        Rejected e \<Rightarrow> Inl e
      | Response ok statusText b \<Rightarrow>
          if \<not> ok
          then Inl (Error ''Error''
                 (case b of
                    Json (Page _ err msg) \<Rightarrow> or_default err (or_default msg statusText)
                  | _ \<Rightarrow> statusText))
          else (case b of Json d \<Rightarrow> Inr (Some d) | _ \<Rightarrow> Inr None))"

text \<open>The synchronous part of the load-events effect: the request carries no signal.\<close>

definition od_loadEvents_start :: "storage \<Rightarrow> 'c od_update list \<times> fetch_request list" where
  "od_loadEvents_start st =
     (if \<not> truthy (getItem st ''jwt'') then ([SetLoading False], [])
      else ([], [\<lparr>q_url = ''/organizers/me/events?page=1&limit=50'', q_signal = False\<rparr>]))"

text \<open>The effect returns no cleanup function: unmounting leaves its variables as they are.\<close>

definition od_cleanup :: "effect_vars \<Rightarrow> effect_vars" where
  "od_cleanup v = v"

text \<open>After the await. \<open>mk\<close> is the card built for one event.\<close>

definition od_loadEvents_finish ::
  "('e \<Rightarrow> 'c) \<Rightarrow> 'e listing fetch_result \<Rightarrow> 'c od_update list \<times> effect list" where
  "od_loadEvents_finish mk res =
     (case jsonFetch res of
        Inl (Error _ m) \<Rightarrow> ([SetLoading False], [ToastError (or_default (Some m) ''Failed to load events'')])
      | Inr resp \<Rightarrow>
          let list = (case resp of
                        Some (Items l) \<Rightarrow> l
                      | Some (Page (Some l) _ _) \<Rightarrow> l
                      | _ \<Rightarrow> [])
          in ([SetMyEvents (map mk list), SetLoading False], []))"

definition od_unmount_then_resolve ::
  "('e \<Rightarrow> 'c) \<Rightarrow> 'e listing fetch_result \<Rightarrow> 'c od_update list \<times> effect list" where
  "od_unmount_then_resolve mk res =
     od_loadEvents_finish mk (settle (od_cleanup fresh_vars) False res)"

subsection \<open>EventDetail\<close>

text \<open>\<^verbatim>\<open>return () => ac.abort()\<close>\<close>

definition ed_cleanup :: "effect_vars \<Rightarrow> effect_vars" where
  "ed_cleanup v = v\<lparr>ev_aborted := True\<rparr>"

definition ed_unmount_then_resolve ::
  "string option \<Rightarrow> EventMeta list fetch_result \<Rightarrow> ed_state \<Rightarrow> ed_state \<times> effect list" where
  "ed_unmount_then_resolve eventId res s =
     resolveEvent eventId (settle (ed_cleanup fresh_vars) True res) s"

text \<open>
  How \<^verbatim>\<open>App\<close> wires the callbacks of \<^verbatim>\<open>EventDetail\<close>: \<^verbatim>\<open>onBack\<close> sets the page to home,
  \<^verbatim>\<open>onBookStall\<close> is \<open>navigateToBooking\<close>; toasts leave the state alone.
\<close>

fun detail_callback :: "app_state \<Rightarrow> effect \<Rightarrow> app_state" where
  "detail_callback a OnBack = a\<lparr>currentPage := home\<rparr>"
| "detail_callback a OnBookStall = navigateToBooking a"
| "detail_callback a _ = a"

text \<open>Forty bookings, twenty-three of them paid.\<close>

definition example_bookings :: "AdminBookingRow list" where
  "example_bookings =
     replicate 23 \<lparr>b_status = ''paid'', b_amount = 8000\<rparr>
     @ replicate 17 \<lparr>b_status = ''pending'', b_amount = 8000\<rparr>"

section \<open>Guarded navigation\<close>

text \<open>
  Claim C1. While the session is unauthenticated, \<open>navigate\<close> to a screen of the guarded
  set (booking, organizer, admin, my-bookings, profile) leaves the current screen as it
  was and raises the show-sign-in flag; \<open>navigate\<close> to any other screen makes that screen
  the current one.
\<close>

theorem navigate_unauthenticated:
  "\<not> isAuthenticated s \<Longrightarrow>
     (page \<in> {booking, organizer, admin, my_bookings, profile} \<longrightarrow>
        currentPage (navigate page s) = currentPage s \<and> showAuth (navigate page s))
     \<and> (page \<notin> {booking, organizer, admin, my_bookings, profile} \<longrightarrow>
        currentPage (navigate page s) = page)"
  by (simp add: navigate_def requiresAuth_def)

theorem navigate_unauthenticated_witness:
  "\<not> isAuthenticated (initial_app Map.empty)
   \<and> admin \<in> {booking, organizer, admin, my_bookings, profile}
   \<and> currentPage (navigate admin (initial_app Map.empty)) = home
   \<and> showAuth (navigate admin (initial_app Map.empty))
   \<and> search \<notin> {booking, organizer, admin, my_bookings, profile}
   \<and> currentPage (navigate search (initial_app Map.empty)) = search"
  using navigate_unauthenticated [of "initial_app Map.empty" admin]
        navigate_unauthenticated [of "initial_app Map.empty" search]
  by (simp add: initial_app_def)

section \<open>Login landing and logout\<close>

text \<open>
  Claim C3. A successful login lands by role: an organizer on the organizer dashboard,
  an admin on the admin dashboard, a creator on the profile screen; this holds from every
  prior state and for every email.
\<close>

theorem handleLogin_landing:
  "currentPage (handleLogin email organizer_role s) = organizer
   \<and> currentPage (handleLogin email admin_role s) = admin
   \<and> currentPage (handleLogin email creator s) = profile"
  by (simp add: handleLogin_def)

text \<open>
  Claim C4. From every state, logout leaves the session unauthenticated with role creator
  and empty email, shows the home screen, and removes the token key \<^verbatim>\<open>jwt\<close> and the
  back-compat keys from client storage.
\<close>

theorem handleLogout_resets:
  "isAuthenticated (handleLogout s) = False
   \<and> userRole (handleLogout s) = creator
   \<and> userEmail (handleLogout s) = []
   \<and> currentPage (handleLogout s) = home
   \<and> getItem (localStorage (handleLogout s)) ''jwt'' = None
   \<and> getItem (localStorage (handleLogout s)) ''sharthi_token'' = None
   \<and> getItem (localStorage (handleLogout s)) ''sharthi_user'' = None
   \<and> getItem (localStorage (handleLogout s)) ''sharthi_role_intent'' = None
   \<and> getItem (localStorage (handleLogout s)) ''sharthi_name_intent'' = None
   \<and> getItem (localStorage (handleLogout s)) ''sharthi_phone_intent'' = None"
  by (simp add: handleLogout_def logout_keys_def removeItem_def getItem_def)

section \<open>Role mapping\<close>

lemma char_of_eq_iff_nat: "n < 256 \<Longrightarrow> char_of (n::nat) = u \<longleftrightarrow> n = of_char u"
  by (metis char_of_char of_char_of mod_less)

lemma upper_char_iff:
  assumes "65 \<le> (of_char u::nat)" "(of_char u::nat) \<le> 90"
  shows "toUpperCase_char c = u \<longleftrightarrow> either_case u c"
proof (cases "97 \<le> (of_char c::nat) \<and> (of_char c::nat) \<le> 122")
  case True
  then have ne: "c \<noteq> u" using assms by auto
  from True have lt: "(of_char c::nat) - 32 < 256" by linarith
  from True have "toUpperCase_char c = u \<longleftrightarrow> of_char c - 32 = (of_char u::nat)"
    using char_of_eq_iff_nat [OF lt, of u] by (simp add: toUpperCase_char_def)
  also have "\<dots> \<longleftrightarrow> (of_char c::nat) = of_char u + 32" using True by auto
  finally show ?thesis using ne by (simp add: either_case_def)
next
  case False
  then have "toUpperCase_char c = c" by (auto simp: toUpperCase_char_def Let_def)
  moreover have "(of_char c::nat) \<noteq> of_char u + 32" using False assms by auto
  ultimately show ?thesis by (auto simp: either_case_def)
qed

lemma unicode_casing_of_Nil [simp]: "unicode_casing_of w [] \<longleftrightarrow> w = []"
  by (cases w) auto

lemma not_either_case_high:
  "plain_upper u \<Longrightarrow> 128 \<le> (of_char c::nat) \<Longrightarrow> \<not> either_case u c"
  by (auto simp: either_case_def plain_upper_def)

lemma special_upper2_cases:
  "special_upper2 c d = Some up \<Longrightarrow>
     128 \<le> (of_char c::nat) \<and>
     ((is_dotless_i c d \<and> up = ''I'') \<or> (\<not> is_dotless_i c d \<and> (up = ''S'' \<or> up = ''SS'')))"
  by (auto simp: special_upper2_def is_dotless_i_def split: if_splits)

lemma special_upper2_None: "special_upper2 c d = None \<Longrightarrow> \<not> is_dotless_i c d"
  by (auto simp: special_upper2_def split: if_splits)

lemma special_upper3_cases:
  "special_upper3 c d e = Some up \<Longrightarrow>
     (of_char c::nat) = 239 \<and> (\<exists>x r. up = x # r \<and> (x = CHR ''F'' \<or> x = CHR ''S''))"
  by (auto simp: special_upper3_def Let_def split: if_splits)

lemma toUpperCase_eq_iff:
  "list_all plain_upper w \<Longrightarrow> toUpperCase s = w \<longleftrightarrow> unicode_casing_of w s"
proof (induction s arbitrary: w rule: toUpperCase.induct)
  case 1
  then show ?case by auto
next
  case (2 c)
  then show ?case
    by (cases w) (auto simp: upper_char_iff plain_upper_def)
next
  case (3 c d)
  show ?case
  proof (cases w)
    case Nil
    then show ?thesis by (auto split: option.splits dest: special_upper2_cases)
  next
    case (Cons u w')
    with "3.prems" have pu: "plain_upper u" and pw: "list_all plain_upper w'" by auto
    show ?thesis
    proof (cases "special_upper2 c d")
      case None
      then show ?thesis
        using "3.IH" [OF None pw] pu Cons special_upper2_None [OF None]
        by (auto simp: upper_char_iff plain_upper_def)
    next
      case (Some up)
      from special_upper2_cases [OF Some] not_either_case_high [OF pu, of c] pu
      show ?thesis using Some Cons
        by (auto simp: plain_upper_def)
    qed
  qed
next
  case (4 c d e r)
  show ?case
  proof (cases w)
    case Nil
    then show ?thesis
      by (auto split: option.splits dest: special_upper2_cases special_upper3_cases)
  next
    case (Cons u w')
    with "4.prems" have pu: "plain_upper u" and pw: "list_all plain_upper w'" by auto
    show ?thesis
    proof (cases "special_upper3 c d e")
      case (Some up)
      from special_upper3_cases [OF Some] not_either_case_high [OF pu, of c] pu
      show ?thesis using Some Cons
        by (auto simp: plain_upper_def is_dotless_i_def)
    next
      case n3: None
      show ?thesis
      proof (cases "special_upper2 c d")
        case None
        then show ?thesis
          using "4.IH"(1) [OF n3 None pw] pu Cons special_upper2_None [OF None] n3
          by (auto simp: upper_char_iff plain_upper_def)
      next
        case (Some up)
        from special_upper2_cases [OF Some] not_either_case_high [OF pu, of c] pu
        show ?thesis using Some Cons n3 "4.IH"(2) [OF n3 Some pw]
          by (auto simp: plain_upper_def)
      qed
    qed
  qed
qed

lemma casing_of_unicode: "casing_of w s \<Longrightarrow> unicode_casing_of w s"
  unfolding casing_of_def by (induction w s rule: list_all2_induct) auto

declare toUpperCase.simps [simp del]

lemma toUpperCase_ORGANIZER:
  "toUpperCase s = ''ORGANIZER'' \<longleftrightarrow> unicode_casing_of ''ORGANIZER'' s"
  by (rule toUpperCase_eq_iff) (simp add: plain_upper_def)

lemma toUpperCase_ADMIN: "toUpperCase s = ''ADMIN'' \<longleftrightarrow> unicode_casing_of ''ADMIN'' s"
  by (rule toUpperCase_eq_iff) (simp add: plain_upper_def)

lemma toUpperCase_CREATOR: "toUpperCase ''CREATOR'' = ''CREATOR''"
  by code_simp

lemma toUpperCase_GOLD: "toUpperCase ''GOLD'' = ''GOLD''"
  by code_simp

lemma unicode_casing_exclusive:
  "unicode_casing_of ''ORGANIZER'' s \<Longrightarrow> \<not> unicode_casing_of ''ADMIN'' s"
  using toUpperCase_ORGANIZER [of s] toUpperCase_ADMIN [of s] by auto

lemma toUiRole_Some:
  "toUiRole (Some s) =
     (if unicode_casing_of ''ORGANIZER'' s then organizer_role
      else if unicode_casing_of ''ADMIN'' s then admin_role else creator)"
proof (cases "s = []")
  case True
  then show ?thesis
    by (simp add: toUiRole_def or_default_def toUpperCase_CREATOR)
next
  case False
  then show ?thesis
    by (simp add: toUiRole_def or_default_def toUpperCase_ORGANIZER toUpperCase_ADMIN)
qed

lemma toUiRole_None: "toUiRole None = creator"
  by (simp add: toUiRole_def or_default_def toUpperCase_CREATOR)

lemma dotless_upper:
  "toUpperCase dotless_admin = ''ADMIN''" "toUpperCase dotless_organizer = ''ORGANIZER''"
  by code_simp+

text \<open>
  Claim C8, as the code has it. A backend role string maps to the three roles ignoring case,
  in the sense of \<^verbatim>\<open>toUpperCase\<close>: every casing of ORGANIZER gives organizer and every casing
  of ADMIN gives admin; a string gives organizer, or admin, exactly when it is such a casing
  or differs from one by dotless i standing for \<open>I\<close>; every other string gives creator, and
  so does a missing role. The mapping written out inside \<open>meFromToken\<close> is the same function.
\<close>

theorem role_mapping_case_insensitive:
  "(casing_of ''ORGANIZER'' s \<longrightarrow> toUiRole (Some s) = organizer_role)
   \<and> (casing_of ''ADMIN'' s \<longrightarrow> toUiRole (Some s) = admin_role)
   \<and> (toUiRole (Some s) = organizer_role \<longleftrightarrow> unicode_casing_of ''ORGANIZER'' s)
   \<and> (toUiRole (Some s) = admin_role \<longleftrightarrow> unicode_casing_of ''ADMIN'' s)
   \<and> (\<not> unicode_casing_of ''ORGANIZER'' s \<and> \<not> unicode_casing_of ''ADMIN'' s \<longrightarrow>
        toUiRole (Some s) = creator)
   \<and> toUiRole None = creator
   \<and> (truthy (getToken st) \<longrightarrow>
        map_option fst (meFromToken st (Response True t (Json u))) = Some (toUiRole (u_role u)))"
proof -
  have me: "truthy (getToken st) \<longrightarrow>
        map_option fst (meFromToken st (Response True t (Json u))) = Some (toUiRole (u_role u))"
    by (simp add: meFromToken_def toUiRole_def Let_def)
  have org: "toUiRole (Some s) = organizer_role \<longleftrightarrow> unicode_casing_of ''ORGANIZER'' s"
    by (simp add: toUiRole_Some)
  have adm: "toUiRole (Some s) = admin_role \<longleftrightarrow> unicode_casing_of ''ADMIN'' s"
    using unicode_casing_exclusive [of s] by (auto simp: toUiRole_Some)
  have other: "\<not> unicode_casing_of ''ORGANIZER'' s \<and> \<not> unicode_casing_of ''ADMIN'' s \<longrightarrow>
        toUiRole (Some s) = creator"
    by (simp add: toUiRole_Some)
  from me org adm other show ?thesis
    using casing_of_unicode [of "''ORGANIZER''" s] casing_of_unicode [of "''ADMIN''" s]
    by (simp add: toUiRole_None)
qed

theorem role_mapping_case_insensitive_witness:
  "casing_of ''ORGANIZER'' ''Organizer'' \<and> toUiRole (Some ''Organizer'') = organizer_role
   \<and> casing_of ''ADMIN'' ''aDmin'' \<and> toUiRole (Some ''aDmin'') = admin_role
   \<and> \<not> unicode_casing_of ''ORGANIZER'' ''guest'' \<and> \<not> unicode_casing_of ''ADMIN'' ''guest''
   \<and> toUiRole (Some ''guest'') = creator
   \<and> truthy (getToken [''jwt'' \<mapsto> Text ''t''])
   \<and> map_option fst (meFromToken [''jwt'' \<mapsto> Text ''t'']
         (Response True ''OK'' (Json \<lparr>u_role = Some ''admin'', u_email = None\<rparr>)))
       = Some admin_role"
proof -
  have c1: "casing_of ''ORGANIZER'' ''Organizer''" and c2: "casing_of ''ADMIN'' ''aDmin''"
    by (simp_all add: casing_of_def either_case_def)
  have c3: "\<not> unicode_casing_of ''ORGANIZER'' ''guest''" "\<not> unicode_casing_of ''ADMIN'' ''guest''"
    by (simp_all add: either_case_def is_dotless_i_def)
  have c4: "truthy (getToken [''jwt'' \<mapsto> Text ''t''])"
    by (simp add: getToken_def getItem_def js_or_def)
  have c5: "casing_of ''ADMIN'' ''admin''"
    by (simp add: casing_of_def either_case_def)
  from role_mapping_case_insensitive [of "''Organizer''" "[''jwt'' \<mapsto> Text ''t'']" "''OK''"
          "\<lparr>u_role = Some ''admin'', u_email = None\<rparr>"] c1 c4
  have r1: "toUiRole (Some ''Organizer'') = organizer_role"
    and r4: "map_option fst (meFromToken [''jwt'' \<mapsto> Text ''t'']
         (Response True ''OK'' (Json \<lparr>u_role = Some ''admin'', u_email = None\<rparr>)))
       = Some (toUiRole (Some ''admin''))"
    by simp_all
  from role_mapping_case_insensitive [of "''aDmin''" st t u] c2
  have r2: "toUiRole (Some ''aDmin'') = admin_role" by simp
  from role_mapping_case_insensitive [of "''guest''" st t u] c3
  have r3: "toUiRole (Some ''guest'') = creator" by simp
  from role_mapping_case_insensitive [of "''admin''" st t u] c5
  have r5: "toUiRole (Some ''admin'') = admin_role" by simp
  from c1 c2 c3 c4 r1 r2 r3 r4 r5 show ?thesis by simp
qed

text \<open>
  The claim as first stated counts as a casing only the two letter cases, and sends every
  other string to creator. The string \<^verbatim>\<open>adm\<close>, dotless i, \<^verbatim>\<open>n\<close> is not such a casing of
  ADMIN, nor one of ORGANIZER, and \<^verbatim>\<open>toUpperCase\<close> makes it ADMIN: it maps to admin. In the
  same way \<^verbatim>\<open>organ\<close>, dotless i, \<^verbatim>\<open>zer\<close> maps to organizer.
\<close>

theorem dotless_i_role_counterexample:
  "\<not> casing_of ''ADMIN'' dotless_admin
   \<and> \<not> casing_of ''ORGANIZER'' dotless_admin
   \<and> toUiRole (Some dotless_admin) = admin_role
   \<and> \<not> casing_of ''ORGANIZER'' dotless_organizer
   \<and> \<not> casing_of ''ADMIN'' dotless_organizer
   \<and> toUiRole (Some dotless_organizer) = organizer_role"
proof -
  have "\<not> casing_of ''ADMIN'' dotless_admin" "\<not> casing_of ''ORGANIZER'' dotless_admin"
    "\<not> casing_of ''ORGANIZER'' dotless_organizer" "\<not> casing_of ''ADMIN'' dotless_organizer"
    by (simp_all add: casing_of_def dotless_admin_def dotless_organizer_def)
  moreover have "toUiRole (Some dotless_admin) = admin_role"
    "toUiRole (Some dotless_organizer) = organizer_role"
    by (simp_all add: toUiRole_def or_default_def dotless_upper)
       (simp_all add: dotless_admin_def dotless_organizer_def)
  ultimately show ?thesis by simp
qed

section \<open>Session restore fails closed\<close>

lemma restoreSession_unchanged:
  "\<not> (truthy (getToken (localStorage s)) \<and> lookup_succeeded res) \<Longrightarrow> restoreSession res s = s"
  by (cases res rule: lookup_succeeded.cases)
     (auto simp: restoreSession_def meFromToken_def)

lemma restoreSession_authenticated:
  "truthy (getToken (localStorage s)) \<Longrightarrow> lookup_succeeded res \<Longrightarrow>
     isAuthenticated (restoreSession res s)"
  by (cases res rule: lookup_succeeded.cases)
     (auto simp: restoreSession_def meFromToken_def Let_def)

text \<open>
  Claim C7. Restoring the session never fails open. From an anonymous session, the session
  is authenticated afterwards exactly when storage holds a token and the identity lookup
  succeeded; with no token, a rejected request, a response that is not ok, or a body that
  does not parse or is null, the session is left exactly as it was (so it stays
  unauthenticated and keeps its role).
\<close>

theorem restoreSession_fails_closed:
  "\<not> isAuthenticated s \<Longrightarrow>
     (isAuthenticated (restoreSession res s)
        \<longleftrightarrow> truthy (getToken (localStorage s)) \<and> lookup_succeeded res)
     \<and> (\<not> truthy (getToken (localStorage s)) \<longrightarrow> restoreSession res s = s)
     \<and> restoreSession (Rejected e) s = s
     \<and> restoreSession (Response False t b) s = s
     \<and> restoreSession (Response ok t Unparseable) s = s
     \<and> restoreSession (Response ok t JsonNull) s = s"
proof -
  assume anon: "\<not> isAuthenticated s"
  have "isAuthenticated (restoreSession res s)
          \<longleftrightarrow> truthy (getToken (localStorage s)) \<and> lookup_succeeded res"
  proof
    assume after: "isAuthenticated (restoreSession res s)"
    show "truthy (getToken (localStorage s)) \<and> lookup_succeeded res"
    proof (rule ccontr)
      assume "\<not> (truthy (getToken (localStorage s)) \<and> lookup_succeeded res)"
      then have "restoreSession res s = s" by (rule restoreSession_unchanged)
      with after anon show False by simp
    qed
  next
    assume "truthy (getToken (localStorage s)) \<and> lookup_succeeded res"
    then show "isAuthenticated (restoreSession res s)"
      by (simp add: restoreSession_authenticated)
  qed
  moreover have "\<not> truthy (getToken (localStorage s)) \<longrightarrow> restoreSession res s = s"
    by (simp add: restoreSession_unchanged)
  moreover have "restoreSession (Rejected e) s = s"
    by (simp add: restoreSession_unchanged)
  moreover have "restoreSession (Response False t b) s = s"
    by (cases b) (simp_all add: restoreSession_unchanged)
  moreover have "restoreSession (Response ok t Unparseable) s = s"
    by (simp add: restoreSession_unchanged)
  moreover have "restoreSession (Response ok t JsonNull) s = s"
    by (simp add: restoreSession_unchanged)
  ultimately show ?thesis by blast
qed

theorem restoreSession_fails_closed_witness:
  "\<not> isAuthenticated (initial_app [''jwt'' \<mapsto> Text ''t''])
   \<and> isAuthenticated (restoreSession
        (Response True ''OK'' (Json \<lparr>u_role = Some ''ADMIN'', u_email = Some ''a@b.c''\<rparr>))
        (initial_app [''jwt'' \<mapsto> Text ''t'']))
   \<and> \<not> isAuthenticated (initial_app Map.empty)
   \<and> \<not> truthy (getToken (localStorage (initial_app Map.empty)))
   \<and> restoreSession
        (Response True ''OK'' (Json \<lparr>u_role = Some ''ADMIN'', u_email = Some ''a@b.c''\<rparr>))
        (initial_app Map.empty) = initial_app Map.empty"
  using restoreSession_fails_closed [of "initial_app [''jwt'' \<mapsto> Text ''t'']"
          "Response True ''OK'' (Json \<lparr>u_role = Some ''ADMIN'', u_email = Some ''a@b.c''\<rparr>)"]
        restoreSession_fails_closed [of "initial_app Map.empty"
          "Response True ''OK'' (Json \<lparr>u_role = Some ''ADMIN'', u_email = Some ''a@b.c''\<rparr>)"]
  by (simp add: initial_app_def getToken_def getItem_def js_or_def)

section \<open>EventDetail: tier cards\<close>

lemma get_or_empty_byTier:
  "get_or_empty (byTier m ss) key = get_or_empty m key @ stalls_of_tier key ss"
  by (induction ss arbitrary: m) (auto simp: get_or_empty_def stalls_of_tier_def)

lemma get_or_empty_byTier_empty:
  "get_or_empty (byTier Map.empty ss) key = stalls_of_tier key ss"
  by (simp add: get_or_empty_byTier) (simp add: get_or_empty_def)

lemma foldl_plus_sum_list:
  "foldl (\<lambda>t s. t + f s) a xs = (a::int) + sum_list (map f xs)"
  by (induction xs arbitrary: a) auto

lemma mkCard_sums:
  "tc_available (mkCard (byTier Map.empty ss) key label features popular)
     = sum_list (map s_qtyLeft (stalls_of_tier key ss))"
  "tc_total (mkCard (byTier Map.empty ss) key label features popular)
     = sum_list (map s_qtyTotal (stalls_of_tier key ss))"
  by (simp_all add: mkCard_def Let_def get_or_empty_byTier_empty foldl_plus_sum_list)


lemma example_price: "whole (Math_round (js_div 10000 1)) = 10000"
  by code_simp

lemma toLowerCase_GOLD: "toLowerCase ''GOLD'' = ''gold''"
  by code_simp

declare toLowerCase.simps [simp del]

lemma tierCards_example: "tierCards [example_stall qtot qleft] ! 2 = gold_card qtot qleft"
  by (simp add: tierCards_def example_stall_def gold_card_def mkCard_def tier_key_def
      get_or_empty_def toUpperCase_GOLD toLowerCase_GOLD Let_def example_price)

lemma tierCards_sums:
  "map tc_available (tierCards ss)
     = map (\<lambda>k. sum_list (map s_qtyLeft (stalls_of_tier k ss))) [''BRONZE'', ''SILVER'', ''GOLD'']"
  "map tc_total (tierCards ss)
     = map (\<lambda>k. sum_list (map s_qtyTotal (stalls_of_tier k ss))) [''BRONZE'', ''SILVER'', ''GOLD'']"
  by (simp_all add: tierCards_def Let_def mkCard_sums)

lemma onSelectTier_refused:
  "ed_eid s = Some e \<Longrightarrow> e \<noteq> [] \<Longrightarrow> select_disabled c \<or> tc_sampleStallId c = None \<Longrightarrow>
     onSelectTier s st c = (st, [ToastInfo ''No stalls left in this tier.''])"
  by (auto simp: onSelectTier_def select_disabled_def split: option.splits)

lemma onSelectTier_accepted:
  "ed_eid s = Some e \<Longrightarrow> e \<noteq> [] \<Longrightarrow> \<not> select_disabled c \<Longrightarrow> tc_sampleStallId c = Some sid \<Longrightarrow>
     onSelectTier s st c =
       (setItem st ''sharthi_booking_draft''
          (DraftDoc \<lparr>d_eventId = e, d_stallId = sid, d_tier = tc_name c, d_price = tc_price c\<rparr>),
        [OnBookStall])"
  by (auto simp: onSelectTier_def select_disabled_def split: option.splits)

text \<open>
  Claim C5, as the code has it. For every list of fetched stalls, the three tier cards
  (Bronze, Silver, Gold) report as available the sum of \<open>qtyLeft\<close> and as total the sum of
  \<open>qtyTotal\<close> over the stalls of their tier. The select button is disabled, and labelled
  sold-out, exactly when total is positive and available is not. With an event resolved,
  selecting a card that is disabled or has no stall leaves client storage as it was and
  shows the info notice; selecting any other card stores the draft. For the single stall
  GOLD, 10000, total 5, left 2, the Gold card reports available 2, total 5 and is not disabled.
\<close>

theorem tier_cards_and_selection:
  "map tc_available (tierCards ss)
     = map (\<lambda>k. sum_list (map s_qtyLeft (stalls_of_tier k ss))) [''BRONZE'', ''SILVER'', ''GOLD'']
   \<and> map tc_total (tierCards ss)
     = map (\<lambda>k. sum_list (map s_qtyTotal (stalls_of_tier k ss))) [''BRONZE'', ''SILVER'', ''GOLD'']
   \<and> (select_disabled c \<longleftrightarrow> 0 < tc_total c \<and> tc_available c \<le> 0)
   \<and> (select_label c = ''Sold Out'' \<longleftrightarrow> 0 < tc_total c \<and> tc_available c \<le> 0)
   \<and> (ed_eid s = Some e \<and> e \<noteq> [] \<and> (select_disabled c \<or> tc_sampleStallId c = None) \<longrightarrow>
        onSelectTier s st c = (st, [ToastInfo ''No stalls left in this tier.'']))
   \<and> (ed_eid s = Some e \<and> e \<noteq> [] \<and> \<not> select_disabled c \<and> tc_sampleStallId c = Some sid \<longrightarrow>
        onSelectTier s st c =
          (setItem st ''sharthi_booking_draft''
             (DraftDoc \<lparr>d_eventId = e, d_stallId = sid, d_tier = tc_name c, d_price = tc_price c\<rparr>),
           [OnBookStall]))
   \<and> tc_available (tierCards [example_stall 5 2] ! 2) = 2
   \<and> tc_total (tierCards [example_stall 5 2] ! 2) = 5
   \<and> \<not> select_disabled (tierCards [example_stall 5 2] ! 2)"
proof -
  have "select_label c = ''Sold Out'' \<longleftrightarrow> 0 < tc_total c \<and> tc_available c \<le> 0"
    by (simp add: select_label_def)
  moreover have "tc_available (tierCards [example_stall 5 2] ! 2) = 2"
    "tc_total (tierCards [example_stall 5 2] ! 2) = 5"
    "\<not> select_disabled (tierCards [example_stall 5 2] ! 2)"
    by (simp_all add: tierCards_example gold_card_def select_disabled_def)
  ultimately show ?thesis
    using tierCards_sums [of ss] onSelectTier_refused [of s e c st]
      onSelectTier_accepted [of s e c sid st]
    by (simp add: select_disabled_def)
qed

theorem tier_cards_and_selection_witness:
  "ed_eid example_detail = Some ''E1''
   \<and> select_disabled (gold_card 5 0)
   \<and> onSelectTier example_detail Map.empty (gold_card 5 0)
       = (Map.empty, [ToastInfo ''No stalls left in this tier.''])
   \<and> \<not> select_disabled (gold_card 5 2) \<and> tc_sampleStallId (gold_card 5 2) = Some ''S1''
   \<and> onSelectTier example_detail Map.empty (gold_card 5 2)
       = (setItem Map.empty ''sharthi_booking_draft''
            (DraftDoc \<lparr>d_eventId = ''E1'', d_stallId = ''S1'', d_tier = ''VIP'', d_price = 10000\<rparr>),
          [OnBookStall])"
  using tier_cards_and_selection [of "[]" "gold_card 5 0" example_detail "''E1''" Map.empty "''S1''"]
        tier_cards_and_selection [of "[]" "gold_card 5 2" example_detail "''E1''" Map.empty "''S1''"]
  by (simp add: example_detail_def gold_card_def select_disabled_def)

text \<open>
  The claim as first stated says that selecting a tier with nothing left never creates a
  draft. A tier whose only stall records total 0 and left 0 is not disabled, and selecting
  it stores a draft without any notice.
\<close>

theorem sold_out_selection_counterexample:
  "tc_available (tierCards [example_stall 0 0] ! 2) = 0
   \<and> s_qtyLeft (example_stall 0 0) = 0
   \<and> getItem (fst (onSelectTier example_detail Map.empty (tierCards [example_stall 0 0] ! 2)))
        ''sharthi_booking_draft''
       = Some (DraftDoc \<lparr>d_eventId = ''E1'', d_stallId = ''S1'', d_tier = ''VIP'', d_price = 10000\<rparr>)
   \<and> snd (onSelectTier example_detail Map.empty (tierCards [example_stall 0 0] ! 2)) = [OnBookStall]"
proof -
  have "s_qtyLeft (example_stall 0 0) = 0"
    by (simp add: example_stall_def)
  then show ?thesis
    by (simp add: tierCards_example gold_card_def example_detail_def
        onSelectTier_def getItem_def setItem_def)
qed

section \<open>EventDetail: resolving the event to show\<close>

lemma resolve_first:
  "\<not> isRealId eventId \<or> \<not> list_ex (\<lambda>e. Some (e_id e) = eventId) (e0 # rest) \<Longrightarrow>
   resolveEvent eventId (Response ok t (Json (e0 # rest))) s
     = (s\<lparr>ed_eid := Some (e_id e0), ed_eventMeta := Some e0\<rparr>, [])"
  by (auto simp: resolveEvent_def)

lemma resolve_error_iff:
  "snd (resolveEvent eventId res s) \<noteq> [] \<longleftrightarrow> fetched_events res = []"
  by (cases res rule: json_or_empty.cases)
     (auto simp: resolveEvent_def fetched_events_def split: list.splits)

lemma resolve_error_back:
  "fetched_events res = [] \<Longrightarrow>
     fst (resolveEvent eventId res s) = s \<and> OnBack \<in> set (snd (resolveEvent eventId res s))
     \<and> (\<exists>m. snd (resolveEvent eventId res s) = [ToastError m, OnBack])"
  by (cases res rule: json_or_empty.cases)
     (auto simp: resolveEvent_def fetched_events_def split: list.splits)

lemma short_id_not_real: "length x < 24 \<Longrightarrow> \<not> isRealId (Some x)"
  by (simp add: isRealId_def)

lemma non_alnum_id_not_real: "\<not> list_all is_alnum x \<Longrightarrow> \<not> isRealId (Some x)"
  by (simp add: isRealId_def)

text \<open>
  Claim C10. When the id handed to EventDetail does not look like a real id (it is missing,
  shorter than 24 characters, or not all letters and digits) or is not the id of any
  fetched event, and the fetched list is not empty, the screen takes the first event of the
  list: its id becomes the resolved id, it becomes the event shown, and nothing is reported.
  An error is reported exactly when the fetched list holds no event; then the state is left
  as it was, one error toast is shown and the screen navigates back.
\<close>

theorem resolveEvent_falls_back_to_first:
  "(\<not> isRealId eventId \<or> \<not> list_ex (\<lambda>e. Some (e_id e) = eventId) (e0 # rest) \<longrightarrow>
      resolveEvent eventId (Response ok t (Json (e0 # rest))) s
        = (s\<lparr>ed_eid := Some (e_id e0), ed_eventMeta := Some e0\<rparr>, []))
   \<and> (snd (resolveEvent eventId res s) \<noteq> [] \<longleftrightarrow> fetched_events res = [])
   \<and> (fetched_events res = [] \<longrightarrow>
        fst (resolveEvent eventId res s) = s
        \<and> (\<exists>m. snd (resolveEvent eventId res s) = [ToastError m, OnBack]))
   \<and> (length x < 24 \<longrightarrow> \<not> isRealId (Some x))
   \<and> (\<not> list_all is_alnum x \<longrightarrow> \<not> isRealId (Some x))
   \<and> \<not> isRealId None"
  using resolve_first [of eventId e0 rest ok t s] resolve_error_iff [of eventId res s]
    resolve_error_back [of res eventId s] short_id_not_real [of x] non_alnum_id_not_real [of x]
  by (simp add: isRealId_def)

theorem resolveEvent_falls_back_to_first_witness:
  "\<not> isRealId (Some ''1'')
   \<and> resolveEvent (Some ''1'') (Response True ''OK'' (Json [example_event])) example_detail
       = (example_detail\<lparr>ed_eid := Some (e_id example_event), ed_eventMeta := Some example_event\<rparr>, [])
   \<and> isRealId (Some ''zz1a2b3c4d5e6f7g8h9i0j1k'')
   \<and> \<not> list_ex (\<lambda>e. Some (e_id e) = Some ''zz1a2b3c4d5e6f7g8h9i0j1k'') [example_event]
   \<and> resolveEvent (Some ''zz1a2b3c4d5e6f7g8h9i0j1k'') (Response True ''OK'' (Json [example_event]))
         example_detail
       = (example_detail\<lparr>ed_eid := Some (e_id example_event), ed_eventMeta := Some example_event\<rparr>, [])
   \<and> fetched_events (Rejected (Error ''TypeError'' ''Failed to fetch'')) = []
   \<and> snd (resolveEvent (Some ''1'') (Rejected (Error ''TypeError'' ''Failed to fetch'')) example_detail)
       = [ToastError ''No events found. Please seed the database.'', OnBack]
   \<and> length ''1'' < 24 \<and> \<not> list_all is_alnum ''a b''"
  using resolveEvent_falls_back_to_first [of "Some ''1''" example_event "[]" True "''OK''"
          example_detail "Rejected (Error ''TypeError'' ''Failed to fetch'')" "''1''"]
        resolveEvent_falls_back_to_first [of "Some ''zz1a2b3c4d5e6f7g8h9i0j1k''" example_event "[]"
          True "''OK''" example_detail "Rejected (Error ''TypeError'' ''Failed to fetch'')" "''a b''"]
  by (simp add: isRealId_def is_alnum_def example_event_def fetched_events_def resolveEvent_def)

section \<open>BookingFlow: payment\<close>

lemma totals_of_draft: "bf_draft s = Some d \<Longrightarrow> t_total (totals_of s) = d_price d"
  by (simp add: totals_of_def Let_def)

lemma mirror_keeps_other_keys:
  "k \<noteq> ''sharthi_my_bookings'' \<Longrightarrow> getItem (mirror_booking now s d st) k = getItem st k"
  by (auto simp: mirror_booking_def getItem_def setItem_def Let_def split: option.splits stored.splits)

lemma handlePayment_pay_failed:
  "bf_draft s = Some d \<Longrightarrow> truthy (getToken st) \<Longrightarrow> \<not> payment_ok pay \<Longrightarrow>
     o_state (handlePayment now pay book s st) = s
     \<and> o_storage (handlePayment now pay book s st) = st
     \<and> o_requests (handlePayment now pay book s st) = [PostPaymentsMock]"
  by (auto simp: handlePayment_def payment_ok_def split: sum.splits)

lemma handlePayment_requests:
  "bf_draft s = Some d \<Longrightarrow> truthy (getToken st) \<Longrightarrow> payment_ok pay \<Longrightarrow>
     o_requests (handlePayment now pay book s st)
       = [PostPaymentsMock, PostBookings (booking_request_of d (payment_ref pay))]"
  by (auto simp: handlePayment_def payment_ok_def payment_ref_def booking_request_of_def
      totals_of_draft Let_def split: sum.splits)

lemma handlePayment_book_failed:
  "bf_draft s = Some d \<Longrightarrow> truthy (getToken st) \<Longrightarrow> payment_ok pay \<Longrightarrow>
   \<not> booking_ok (book (booking_request_of d (payment_ref pay))) \<Longrightarrow>
     o_state (handlePayment now pay book s st) = s
     \<and> o_storage (handlePayment now pay book s st) = st"
  by (auto simp: handlePayment_def payment_ok_def payment_ref_def booking_ok_def
      booking_request_of_def totals_of_draft Let_def split: sum.splits)

lemma handlePayment_both_ok:
  "bf_draft s = Some d \<Longrightarrow> truthy (getToken st) \<Longrightarrow> payment_ok pay \<Longrightarrow>
   booking_ok (book (booking_request_of d (payment_ref pay))) \<Longrightarrow>
     o_state (handlePayment now pay book s st) = s\<lparr>bf_step := success\<rparr>
     \<and> o_storage (handlePayment now pay book s st)
         = mirror_booking now s d (removeItem st ''sharthi_booking_draft'')"
  by (auto simp: handlePayment_def payment_ok_def payment_ref_def booking_ok_def
      booking_request_of_def totals_of_draft Let_def split: sum.splits)

lemma draft_removed:
  "getItem (mirror_booking now s d (removeItem st ''sharthi_booking_draft'')) ''sharthi_booking_draft''
     = None"
  by (simp add: mirror_keeps_other_keys) (simp add: getItem_def removeItem_def)

lemma handlePayment_no_token:
  "\<not> truthy (getToken st) \<Longrightarrow>
     o_state (handlePayment now pay book s st) = s
     \<and> o_storage (handlePayment now pay book s st) = st
     \<and> o_requests (handlePayment now pay book s st) = []"
  by (auto simp: handlePayment_def split: option.splits)

lemma bf_mount_reads_draft:
  "getItem st ''sharthi_booking_draft'' = Some (DraftDoc d) \<Longrightarrow>
     bf_mount st s0 = Some (s0\<lparr>bf_draft := Some d\<rparr>, [])"
  by (simp add: bf_mount_def)

lemma handlePayment_with_token:
  "bf_step s = payment \<Longrightarrow> bf_draft s = Some d \<Longrightarrow>
   getItem st ''sharthi_booking_draft'' = Some (DraftDoc d) \<Longrightarrow> truthy (getToken st) \<Longrightarrow>
     bf_mount st s0 = Some (s0\<lparr>bf_draft := Some d\<rparr>, [])
     \<and> (payment_ok pay \<longrightarrow>
          o_requests (handlePayment now pay book s st)
            = [PostPaymentsMock, PostBookings (booking_request_of d (payment_ref pay))]
          \<and> r_amount (booking_request_of d (payment_ref pay)) = d_price d)
     \<and> (\<not> payment_ok pay \<longrightarrow> o_requests (handlePayment now pay book s st) = [PostPaymentsMock])
     \<and> (bf_step (o_state (handlePayment now pay book s st)) = success
          \<and> getItem (o_storage (handlePayment now pay book s st)) ''sharthi_booking_draft'' = None
        \<longleftrightarrow> payment_ok pay \<and> booking_ok (book (booking_request_of d (payment_ref pay))))
     \<and> (\<not> (payment_ok pay \<and> booking_ok (book (booking_request_of d (payment_ref pay)))) \<longrightarrow>
          o_state (handlePayment now pay book s st) = s
          \<and> o_storage (handlePayment now pay book s st) = st
          \<and> bf_step (o_state (handlePayment now pay book s st)) = payment
          \<and> getItem (o_storage (handlePayment now pay book s st)) ''sharthi_booking_draft''
              = Some (DraftDoc d))"
proof -
  assume step: "bf_step s = payment" and draft: "bf_draft s = Some d"
    and stored: "getItem st ''sharthi_booking_draft'' = Some (DraftDoc d)"
    and token: "truthy (getToken st)"
  let ?run = "handlePayment now pay book s st"
  let ?req = "booking_request_of d (payment_ref pay)"
  have mount: "bf_mount st s0 = Some (s0\<lparr>bf_draft := Some d\<rparr>, [])"
    using stored by (rule bf_mount_reads_draft)
  have amount: "r_amount ?req = d_price d"
    by (simp add: booking_request_of_def)
  have kept: "o_state ?run = s \<and> o_storage ?run = st"
    if "\<not> (payment_ok pay \<and> booking_ok (book ?req))"
    using that handlePayment_pay_failed [OF draft token, of pay now book]
      handlePayment_book_failed [OF draft token, of pay book now] by blast
  have committed: "o_state ?run = s\<lparr>bf_step := success\<rparr>
      \<and> getItem (o_storage ?run) ''sharthi_booking_draft'' = None"
    if "payment_ok pay \<and> booking_ok (book ?req)"
    using that handlePayment_both_ok [OF draft token, of pay book now] draft_removed by simp
  have iff: "bf_step (o_state ?run) = success
          \<and> getItem (o_storage ?run) ''sharthi_booking_draft'' = None
        \<longleftrightarrow> payment_ok pay \<and> booking_ok (book ?req)"
    using kept committed step by (cases "payment_ok pay \<and> booking_ok (book ?req)") auto
  show ?thesis
    using mount amount kept iff step stored
      handlePayment_requests [OF draft token, of pay now book]
      handlePayment_pay_failed [OF draft token, of pay now book]
    by simp
qed

text \<open>
  Claim C2. At the payment step, with the draft \<open>d\<close> that the mount effect read from
  client storage: without a token no request is made and nothing changes. With a token,
  the booking request, sent only after the payment call succeeded, carries the draft's
  ids, the payment reference and amount equal to the draft's price; the flow reaches the
  success step with the draft removed from storage exactly when both calls succeed; and
  when either fails, the state and the whole of client storage are as before: the step is
  still payment and the stored draft is intact.
\<close>

theorem handlePayment_commits_or_keeps_draft:
  "bf_step s = payment \<Longrightarrow> bf_draft s = Some d \<Longrightarrow>
   getItem st ''sharthi_booking_draft'' = Some (DraftDoc d) \<Longrightarrow>
     bf_mount st s0 = Some (s0\<lparr>bf_draft := Some d\<rparr>, [])
     \<and> (\<not> truthy (getToken st) \<longrightarrow>
          o_requests (handlePayment now pay book s st) = []
          \<and> o_state (handlePayment now pay book s st) = s
          \<and> o_storage (handlePayment now pay book s st) = st)
     \<and> (truthy (getToken st) \<longrightarrow>
          (payment_ok pay \<longrightarrow>
             o_requests (handlePayment now pay book s st)
               = [PostPaymentsMock, PostBookings (booking_request_of d (payment_ref pay))]
             \<and> r_amount (booking_request_of d (payment_ref pay)) = d_price d)
          \<and> (\<not> payment_ok pay \<longrightarrow> o_requests (handlePayment now pay book s st) = [PostPaymentsMock])
          \<and> (bf_step (o_state (handlePayment now pay book s st)) = success
               \<and> getItem (o_storage (handlePayment now pay book s st)) ''sharthi_booking_draft'' = None
             \<longleftrightarrow> payment_ok pay \<and> booking_ok (book (booking_request_of d (payment_ref pay))))
          \<and> (\<not> (payment_ok pay \<and> booking_ok (book (booking_request_of d (payment_ref pay)))) \<longrightarrow>
               o_state (handlePayment now pay book s st) = s
               \<and> o_storage (handlePayment now pay book s st) = st
               \<and> bf_step (o_state (handlePayment now pay book s st)) = payment
               \<and> getItem (o_storage (handlePayment now pay book s st)) ''sharthi_booking_draft''
                   = Some (DraftDoc d)))"
proof -
  assume step: "bf_step s = payment" and draft: "bf_draft s = Some d"
    and stored: "getItem st ''sharthi_booking_draft'' = Some (DraftDoc d)"
  show ?thesis
  proof (cases "truthy (getToken st)")
    case True
    from handlePayment_with_token [OF step draft stored True, of s0 pay now book] True
    show ?thesis by blast
  next
    case False
    from handlePayment_no_token [OF False, of now pay book s] bf_mount_reads_draft [OF stored, of s0] False
    show ?thesis by blast
  qed
qed

theorem handlePayment_commits_or_keeps_draft_witness:
  "bf_step example_flow = payment \<and> bf_draft example_flow = Some example_draft
   \<and> getItem example_store ''sharthi_booking_draft'' = Some (DraftDoc example_draft)
   \<and> truthy (getToken example_store)
   \<and> payment_ok ok_body \<and> booking_ok ok_body
   \<and> o_requests (handlePayment ''1'' ok_body (\<lambda>_. ok_body) example_flow example_store)
       = [PostPaymentsMock,
          PostBookings \<lparr>r_eventId = ''E1'', r_stallId = ''S1'', r_amount = 8000,
                        r_paymentRef = Some ''PAY-1''\<rparr>]
   \<and> bf_step (o_state (handlePayment ''1'' ok_body (\<lambda>_. ok_body) example_flow example_store))
       = success
   \<and> getItem (o_storage (handlePayment ''1'' ok_body (\<lambda>_. ok_body) example_flow example_store))
        ''sharthi_booking_draft'' = None
   \<and> \<not> payment_ok failed_body
   \<and> o_requests (handlePayment ''1'' failed_body (\<lambda>_. ok_body) example_flow example_store)
       = [PostPaymentsMock]
   \<and> o_state (handlePayment ''1'' failed_body (\<lambda>_. ok_body) example_flow example_store)
       = example_flow
   \<and> getItem (o_storage (handlePayment ''1'' failed_body (\<lambda>_. ok_body) example_flow example_store))
        ''sharthi_booking_draft'' = Some (DraftDoc example_draft)
   \<and> \<not> booking_ok failed_body
   \<and> o_state (handlePayment ''1'' ok_body (\<lambda>_. failed_body) example_flow example_store)
       = example_flow
   \<and> o_storage (handlePayment ''1'' ok_body (\<lambda>_. failed_body) example_flow example_store)
       = example_store
   \<and> \<not> truthy (getToken (example_store(''jwt'' := None)))
   \<and> o_requests (handlePayment ''1'' ok_body (\<lambda>_. ok_body) example_flow
         (example_store(''jwt'' := None))) = []"
  using handlePayment_commits_or_keeps_draft [where s = example_flow and d = example_draft
          and st = example_store and pay = ok_body and book = "\<lambda>_. ok_body" and now = "''1''"
          and ?s0.0 = example_flow]
        handlePayment_commits_or_keeps_draft [where s = example_flow and d = example_draft
          and st = example_store and pay = failed_body and book = "\<lambda>_. ok_body" and now = "''1''"
          and ?s0.0 = example_flow]
        handlePayment_commits_or_keeps_draft [where s = example_flow and d = example_draft
          and st = example_store and pay = ok_body and book = "\<lambda>_. failed_body" and now = "''1''"
          and ?s0.0 = example_flow]
        handlePayment_commits_or_keeps_draft [where s = example_flow and d = example_draft
          and st = "example_store(''jwt'' := None)" and pay = ok_body and book = "\<lambda>_. ok_body"
          and now = "''1''" and ?s0.0 = example_flow]
  by (simp add: example_flow_def example_store_def example_draft_def ok_body_def failed_body_def
      payment_ok_def payment_ref_def booking_ok_def api_def take_paymentRef_def
      booking_request_of_def getItem_def getToken_def js_or_def)

section \<open>Cancellation on unmount\<close>

lemma sp_cancelled_is_silent: "ev_cancel v \<Longrightarrow> sp_load v evRes hydrate = ([], [])"
  by (auto simp: sp_load_def Let_def split: fetch_result.splits body.splits sum.splits js_error.splits prod.splits)

lemma ed_aborted_reports:
  "ed_unmount_then_resolve eventId res s
     = (s, [ToastError ''No events found. Please seed the database.'', OnBack])"
  by (simp add: ed_unmount_then_resolve_def ed_cleanup_def fresh_vars_def settle_def resolveEvent_def)

text \<open>
  Claim C9 fails on the code. OrganizerDashboard issues its load request without an abort
  signal and its effect has no cleanup, so after the screen is unmounted the request still
  resolves and the continuation still calls the state setters. EventDetail does abort, but
  turns the rejection of the aborted request into an empty list, reports that no events
  were found and calls \<open>onBack\<close>, which sends the App to the home screen although the user
  had navigated to the search screen. SearchPage does what the claim says: after its
  cleanup no update and no toast is made, whatever the requests give.
\<close>

theorem unmount_before_resolution:
  "(od_loadEvents_start [''jwt'' \<mapsto> Text ''t''] :: 'c od_update list \<times> fetch_request list)
     = ([], [\<lparr>q_url = ''/organizers/me/events?page=1&limit=50'', q_signal = False\<rparr>])
   \<and> od_unmount_then_resolve mk (Response True ''OK'' (Json (Items [e])))
       = ([SetMyEvents [mk e], SetLoading False], [])
   \<and> ed_unmount_then_resolve eventId res s
       = (s, [ToastError ''No events found. Please seed the database.'', OnBack])
   \<and> currentPage (navigate search a) = search
   \<and> currentPage (foldl detail_callback (navigate search a)
                     (snd (ed_unmount_then_resolve eventId res s))) = home
   \<and> sp_unmount_then_resolve evRes hydrate = ([], [])"
proof -
  have "(od_loadEvents_start [''jwt'' \<mapsto> Text ''t''] :: 'c od_update list \<times> fetch_request list)
     = ([], [\<lparr>q_url = ''/organizers/me/events?page=1&limit=50'', q_signal = False\<rparr>])"
    by (simp add: od_loadEvents_start_def getItem_def)
  moreover have "od_unmount_then_resolve mk (Response True ''OK'' (Json (Items [e])))
       = ([SetMyEvents [mk e], SetLoading False], [])"
    by (simp add: od_unmount_then_resolve_def od_cleanup_def fresh_vars_def settle_def
        od_loadEvents_finish_def jsonFetch_def)
  moreover have "currentPage (navigate search a) = search"
    by (simp add: navigate_def requiresAuth_def)
  moreover have "sp_unmount_then_resolve evRes hydrate = ([], [])"
    by (simp add: sp_unmount_then_resolve_def sp_cleanup_def sp_cancelled_is_silent)
  ultimately show ?thesis
    by (simp add: ed_aborted_reports)
qed

section \<open>Rounding to 53 bits\<close>

lemma round_half_even_err: "\<bar>of_int (round_half_even m) - m\<bar> \<le> 1 / 2"
proof -
  have "of_int \<lfloor>m\<rfloor> \<le> m" "m < of_int \<lfloor>m\<rfloor> + 1" by linarith+
  then show ?thesis
    by (auto simp: round_half_even_def Let_def)
qed

lemma pow2_bitlen_le:
  assumes "0 < a"
  shows "(2::rat) powi (bitlen a - 1) \<le> of_int a" and "of_int a < (2::rat) powi (bitlen a)"
proof -
  from assms have b1: "1 \<le> bitlen a" by (auto simp: bitlen_alt_def)
  from bitlen_bounds [OF assms] have lo: "2 ^ nat (bitlen a - 1) \<le> a" and hi: "a < 2 ^ nat (bitlen a)"
    by auto
  have "(2::rat) powi (bitlen a - 1) = 2 ^ nat (bitlen a - 1)"
    using b1 by (simp add: power_int_def)
  also have "\<dots> = of_int (2 ^ nat (bitlen a - 1))" by simp
  also have "\<dots> \<le> of_int a" using lo by (simp only: of_int_le_iff)
  finally show "(2::rat) powi (bitlen a - 1) \<le> of_int a" .
  have "of_int a < (of_int (2 ^ nat (bitlen a)) :: rat)" using hi by (simp only: of_int_less_iff)
  also have "\<dots> = 2 powi (bitlen a)" using b1 by (simp add: power_int_def)
  finally show "of_int a < (2::rat) powi (bitlen a)" .
qed

lemma binade_lower:
  assumes "0 < x"
  shows "2 powi (binade x) \<le> x"
proof -
  obtain a b where q: "quotient_of x = (a, b)" by (cases "quotient_of x")
  then have b: "0 < b" by (rule quotient_of_denom_pos)
  from q have x: "x = of_int a / of_int b" by (rule quotient_of_div)
  with assms b have a: "0 < a" by (simp add: zero_less_divide_iff)
  let ?e0 = "bitlen a - bitlen b"
  show ?thesis
  proof (cases "2 powi ?e0 \<le> x")
    case True
    then show ?thesis using q by (simp add: binade_def)
  next
    case False
    then have e: "binade x = ?e0 - 1" using q by (simp add: binade_def)
    have "(2::rat) powi (?e0 - 1) = 2 powi (bitlen a - 1) / 2 powi (bitlen b)"
      by (simp add: power_int_diff) 
    also have "\<dots> \<le> of_int a / 2 powi (bitlen b)"
      using pow2_bitlen_le(1) [OF a] by (simp add: divide_right_mono)
    also have "\<dots> \<le> of_int a / of_int b"
      using pow2_bitlen_le(2) [OF b] a b by (simp add: frac_le)
    finally show ?thesis using e x by simp
  qed
qed

lemma fl53_err_pos:
  assumes "0 < x"
  shows "\<bar>fl53 x - x\<bar> \<le> x / 2 ^ 53"
proof -
  define u :: rat where "u = 2 powi (binade x - 52)"
  have u0: "0 < u" by (simp add: u_def)
  have "u * 2 ^ 52 = 2 powi (binade x)"
    by (simp add: u_def power_int_diff)
  with binade_lower [OF assms] have ux: "u * 2 ^ 52 \<le> x" by simp
  have fl: "fl53 x = of_int (round_half_even (x / u)) * u"
    using assms by (simp add: fl53_def u_def Let_def)
  have "fl53 x - x = (of_int (round_half_even (x / u)) - x / u) * u"
    using u0 by (simp add: fl algebra_simps)
  then have "\<bar>fl53 x - x\<bar> = \<bar>of_int (round_half_even (x / u)) - x / u\<bar> * u"
    using u0 by (simp add: abs_mult)
  also have "\<dots> \<le> (1 / 2) * u"
    using round_half_even_err [of "x / u"] u0 by (intro mult_right_mono) auto
  also have "\<dots> \<le> x / 2 ^ 53" using ux by simp
  finally show ?thesis .
qed

lemma fl53_err: "0 \<le> x \<Longrightarrow> \<bar>fl53 x - x\<bar> \<le> x / 2 ^ 53"
  using fl53_err_pos [of x] by (cases "x = 0") (auto simp: fl53_def)


lemma percent_nearest:
  fixes p t :: int
  assumes p0: "0 \<le> p" and pt: "p \<le> t" and t0: "0 < t" and tb: "t < 2 ^ 32"
  shows "\<bar>of_int \<lfloor>fl53 (fl53 (of_int p / of_int t) * 100) + 1 / 2\<rfloor> - 100 * of_int p / of_int t\<bar>
           \<le> (1 / 2 :: rat)"
proof -
  define q :: rat where "q = of_int p / of_int t"
  define x :: rat where "x = 100 * of_int p / of_int t"
  define y :: rat where "y = fl53 q * 100"
  define r :: int where "r = \<lfloor>fl53 y + 1 / 2\<rfloor>"
  have q0: "0 \<le> q" and q1: "q \<le> 1"
    using p0 pt t0 by (simp_all add: q_def)
  have eq: "\<bar>fl53 q - q\<bar> \<le> q / 2 ^ 53" using q0 by (rule fl53_err)
  have qs: "q / 2 ^ 53 \<le> q" using q0 by (simp add: field_simps)
  have fq0: "0 \<le> fl53 q" using eq qs by linarith
  have fq2: "fl53 q \<le> 2" using eq qs q1 by linarith
  have y0: "0 \<le> y" using fq0 by (simp add: y_def)
  have y200: "y \<le> 200" using fq2 by (simp add: y_def)
  have ey: "\<bar>fl53 y - y\<bar> \<le> y / 2 ^ 53" using y0 by (rule fl53_err)
  have xq: "x = q * 100" by (simp add: x_def q_def)
  have "y - x = (fl53 q - q) * 100" by (simp add: y_def xq algebra_simps)
  then have "\<bar>y - x\<bar> = \<bar>(fl53 q - q) * 100\<bar>" by (simp only:)
  also have "\<dots> = \<bar>fl53 q - q\<bar> * 100" by (subst abs_mult) simp
  also have "\<dots> \<le> (1 / 2 ^ 53) * 100"
  proof -
    have "q / 2 ^ 53 \<le> 1 / 2 ^ 53" using q1 by (simp add: field_simps)
    with eq have "\<bar>fl53 q - q\<bar> \<le> 1 / 2 ^ 53" by linarith
    then show ?thesis by (intro mult_right_mono) auto
  qed
  finally have e1: "\<bar>y - x\<bar> \<le> 100 / 2 ^ 53" by simp
  have "y / 2 ^ 53 \<le> 200 / 2 ^ 53" using y200 by (simp add: field_simps)
  with ey have e2: "\<bar>fl53 y - y\<bar> \<le> 200 / 2 ^ 53" by linarith
  have err: "\<bar>fl53 y - x\<bar> \<le> 300 / 2 ^ 53" using e1 e2 by linarith
  have fl: "of_int r \<le> fl53 y + 1 / 2" "fl53 y + 1 / 2 < of_int r + 1"
    unfolding r_def by linarith+
  have near: "\<bar>of_int r - x\<bar> \<le> 1 / 2 + 300 / 2 ^ 53" using fl err by linarith
  define z :: int where "z = 2 * t * r - 200 * p"
  have tpos: "(0::rat) < of_int t" using t0 by simp
  have zr: "(of_int z :: rat) = 2 * of_int t * (of_int r - x)"
    using tpos by (simp add: z_def x_def field_simps)
  have "\<bar>(of_int z :: rat)\<bar> = 2 * of_int t * \<bar>of_int r - x\<bar>"
    using tpos by (simp add: zr abs_mult)
  also have "\<dots> \<le> 2 * of_int t * (1 / 2 + 300 / 2 ^ 53)"
    using near tpos by (intro mult_left_mono) auto
  also have "\<dots> = of_int t + of_int t * (600 / 2 ^ 53)" by (simp add: algebra_simps)
  also have "\<dots> < of_int t + 1"
  proof -
    have "(of_int t :: rat) < 2 ^ 32" using tb by (metis of_int_less_iff of_int_numeral of_int_power)
    then have "(of_int t :: rat) * (600 / 2 ^ 53) < 2 ^ 32 * (600 / 2 ^ 53)"
      by (intro mult_strict_right_mono) auto
    also have "\<dots> < 1" by simp
    finally show ?thesis by simp
  qed
  finally have "\<bar>(of_int z :: rat)\<bar> < of_int (t + 1)" by simp
  then have "\<bar>z\<bar> < t + 1" by (metis of_int_abs of_int_less_iff)
  then have "\<bar>z\<bar> \<le> t" by simp
  then have "\<bar>(of_int z :: rat)\<bar> \<le> of_int t" by (metis of_int_abs of_int_le_iff)
  then have "2 * of_int t * \<bar>of_int r - x\<bar> \<le> (of_int t :: rat)"
    using tpos by (simp add: zr abs_mult)
  then have "\<bar>of_int r - x\<bar> \<le> 1 / 2" using tpos by (simp add: field_simps)
  then show ?thesis by (simp add: r_def y_def q_def x_def)
qed


section \<open>Derived rates\<close>

lemma paidCount_foldl:
  "paidCount a \<le> paidCount (foldl count_booking a bs)
   \<and> paidCount (foldl count_booking a bs) \<le> paidCount a + int (length bs)"
proof (induction bs arbitrary: a)
  case Nil
  then show ?case by simp
next
  case (Cons b bs)
  have "paidCount a \<le> paidCount (count_booking a b)" "paidCount (count_booking a b) \<le> paidCount a + 1"
    by (simp_all add: count_booking_def)
  with Cons [of "count_booking a b"] show ?case by simp
qed

lemma paidCount_range:
  "0 \<le> paidCount (booking_analytics bs) \<and> paidCount (booking_analytics bs) \<le> totalBookings bs"
  using paidCount_foldl [of "\<lparr>paidCount = 0, pendingCount = 0, cancelledCount = 0, paidAmount = 0\<rparr>" bs]
  by (simp add: booking_analytics_def totalBookings_def)

lemma successRate_nonempty:
  "bs \<noteq> [] \<Longrightarrow>
     successRate bs =
       Num (of_int \<lfloor>fl53 (fl53 (of_int (paidCount (booking_analytics bs)) / of_int (totalBookings bs)) * 100)
                      + 1 / 2\<rfloor>)"
  by (simp add: successRate_def totalBookings_def js_div_def)

lemma successRate_empty: "totalBookings bs = 0 \<Longrightarrow> successRate bs = Num 0"
  by (simp add: successRate_def)

lemma successRate_nearest:
  assumes "bs \<noteq> []" "length bs < 2 ^ 32"
  shows "\<exists>r::int. successRate bs = Num (of_int r)
           \<and> \<bar>of_int r - 100 * of_int (paidCount (booking_analytics bs)) / of_int (totalBookings bs)\<bar>
               \<le> (1 / 2 :: rat)"
proof -
  have t0: "0 < totalBookings bs" using assms(1) by (simp add: totalBookings_def)
  have "int (length bs) < int (2 ^ 32)" using assms(2) by (simp only: of_nat_less_iff)
  then have tb: "totalBookings bs < 2 ^ 32" by (simp add: totalBookings_def)
  show ?thesis
    using successRate_nonempty [OF assms(1)] paidCount_range [of bs]
      percent_nearest [of "paidCount (booking_analytics bs)" "totalBookings bs"] t0 tb
    by blast
qed

lemma example_bookings_counts:
  "paidCount (booking_analytics example_bookings) = 23" "totalBookings example_bookings = 40"
  by code_simp+

lemma example_bookings_rate: "successRate example_bookings = Num 57"
  by code_simp

lemma example_bar: "availability_bar (gold_card 5 2) = Percent (Num 40)"
  by code_simp


lemma availability_bar_full: "tc_total c \<le> 0 \<Longrightarrow> availability_bar c = Full"
  by (simp add: availability_bar_def)

lemma availability_bar_percent:
  "0 < tc_total c \<Longrightarrow> \<exists>x. availability_bar c = Percent (Num x) \<and> 2 \<le> x"
  by (simp add: availability_bar_def js_div_def)

lemma empty_aggregates:
  "booking_analytics [] = \<lparr>paidCount = 0, pendingCount = 0, cancelledCount = 0, paidAmount = 0\<rparr>"
  "map tc_available (tierCards []) = [0, 0, 0]" "map tc_total (tierCards []) = [0, 0, 0]"
  by (simp_all add: booking_analytics_def tierCards_def mkCard_def get_or_empty_def Let_def)

text \<open>
  Claim C6, as the code has it. No rendered rate comes from a division by zero. The success
  rate is always a whole finite number; it is 0 when there is no booking, and all counts
  and sums over an empty list are 0. For a non-empty list (a JavaScript array has fewer than
  \<open>2 ^ 32\<close> elements) it is \<^verbatim>\<open>Math.round((paid / total) * 100)\<close> in double arithmetic, which
  is an integer within one half of \<open>100 * paid / total\<close>. A tier card whose total is not
  positive shows the full bar; with a positive total the bar is a finite percentage, at
  least 2.
\<close>

theorem rates_are_defined:
  "(\<exists>r::int. successRate bookings = Num (of_int r)
      \<and> (bookings \<noteq> [] \<and> length bookings < 2 ^ 32 \<longrightarrow>
           \<bar>of_int r - 100 * of_int (paidCount (booking_analytics bookings))
                          / of_int (totalBookings bookings)\<bar> \<le> (1 / 2 :: rat)))
   \<and> (totalBookings bookings = 0 \<longrightarrow> successRate bookings = Num 0)
   \<and> booking_analytics [] = \<lparr>paidCount = 0, pendingCount = 0, cancelledCount = 0, paidAmount = 0\<rparr>
   \<and> successRate [] = Num 0
   \<and> map tc_available (tierCards []) = [0, 0, 0]
   \<and> map tc_total (tierCards []) = [0, 0, 0]
   \<and> byTier Map.empty [] = Map.empty
   \<and> (tc_total c \<le> 0 \<longrightarrow> availability_bar c = Full)
   \<and> (0 < tc_total c \<longrightarrow> (\<exists>x. availability_bar c = Percent (Num x) \<and> 2 \<le> x))
   \<and> (\<exists>r::int. fill_rate sold tot = Num (of_int r))
   \<and> fill_rate 0 0 = Num 0"
proof -
  have fill: "\<exists>r::int. fill_rate sold tot = Num (of_int r)"
    by (simp add: fill_rate_def js_div_def)
  have fill0: "fill_rate 0 0 = Num 0"
    by code_simp
  have rate: "\<exists>r::int. successRate bookings = Num (of_int r)
      \<and> (bookings \<noteq> [] \<and> length bookings < 2 ^ 32 \<longrightarrow>
           \<bar>of_int r - 100 * of_int (paidCount (booking_analytics bookings))
                          / of_int (totalBookings bookings)\<bar> \<le> (1 / 2 :: rat))"
  proof (cases "bookings \<noteq> [] \<and> length bookings < 2 ^ 32")
    case True
    then show ?thesis using successRate_nearest [of bookings] by blast
  next
    case False
    show ?thesis
    proof (cases "bookings = []")
      case True
      then have "successRate bookings = Num (of_int 0)" by (simp add: successRate_def totalBookings_def)
      with True show ?thesis by blast
    next
      case False
      from successRate_nonempty [OF this] \<open>\<not> (bookings \<noteq> [] \<and> length bookings < 2 ^ 32)\<close>
      show ?thesis by blast
    qed
  qed
  have "successRate [] = Num 0" by (simp add: successRate_def totalBookings_def)
  with rate fill fill0 show ?thesis
    using successRate_empty [of bookings] empty_aggregates availability_bar_full [of c]
      availability_bar_percent [of c]
    by simp
qed

theorem rates_are_defined_witness:
  "example_bookings \<noteq> [] \<and> length example_bookings < 2 ^ 32
   \<and> (\<exists>r::int. successRate example_bookings = Num (of_int r)
         \<and> \<bar>of_int r - 100 * 23 / 40\<bar> \<le> (1 / 2 :: rat))
   \<and> totalBookings [] = 0 \<and> successRate [] = Num 0
   \<and> tc_total (gold_card 0 0) \<le> 0 \<and> availability_bar (gold_card 0 0) = Full
   \<and> 0 < tc_total (gold_card 5 2)
   \<and> (\<exists>x. availability_bar (gold_card 5 2) = Percent (Num x) \<and> 2 \<le> x)
   \<and> availability_bar (gold_card 5 2) = Percent (Num 40)"
proof -
  have ne: "example_bookings \<noteq> []" "length example_bookings < 2 ^ 32"
    by (simp_all add: example_bookings_def)
  have c0: "tc_total (gold_card 0 0) \<le> 0" and c5: "0 < tc_total (gold_card 5 2)"
    by (simp_all add: gold_card_def)
  from rates_are_defined [of example_bookings "gold_card 0 0" 0 0] ne c0
  have a: "\<exists>r::int. successRate example_bookings = Num (of_int r)
         \<and> \<bar>of_int r - 100 * 23 / 40\<bar> \<le> (1 / 2 :: rat)"
    and b: "availability_bar (gold_card 0 0) = Full"
    by (simp_all add: example_bookings_counts)
  from rates_are_defined [of "[]" "gold_card 5 2" 0 0] c5
  have c: "totalBookings [] = 0" "successRate [] = Num 0"
    and d: "\<exists>x. availability_bar (gold_card 5 2) = Percent (Num x) \<and> 2 \<le> x"
    by (simp_all add: totalBookings_def)
  from ne c0 c5 a b c d example_bar show ?thesis by simp
qed

text \<open>
  The claim as first stated gives the rate as \<open>round (100 * numerator / denominator)\<close>. With
  23 paid bookings out of 40 that is \<open>round 57.5 = 58\<close>, by \<^verbatim>\<open>Math.round\<close> as by any rounding
  of a half away from zero or to even. The code divides first: the double nearest to
  \<open>23 / 40\<close> lies below it, its product with 100 is the double just below 57.5, and the
  rate shown is 57.
\<close>

theorem success_rate_tie_counterexample:
  "paidCount (booking_analytics example_bookings) = 23
   \<and> totalBookings example_bookings = 40
   \<and> successRate example_bookings = Num 57
   \<and> Math_round (Num (100 * 23 / 40)) = Num 58
   \<and> round (100 * 23 / 40 :: rat) = 58"
proof -
  have "round (100 * 23 / 40 :: rat) = 58" by (simp add: round_def)
  moreover have "Math_round (Num (100 * 23 / 40)) = Num 58" by simp
  ultimately show ?thesis
    by (simp add: example_bookings_counts example_bookings_rate)
qed

end
